theory Spec2Isabelle
  imports Main
begin

section \<open>Host values, responses and transport errors\<close>

text \<open>
  The request body and the callbacks' results have the TypeScript type \<open>any\<close>.
  They are modelled by a small datatype of JavaScript values; \<open>truthy\<close> is the
  language's truthiness test and \<open>js_or a b\<close> is the expression \<open>a || b\<close>.
\<close>

datatype jsval =
    JUndefined
  | JNull
  | JBool bool
  | JNum int
  | JStr string
  | JObj "(string \<times> jsval) list"

fun truthy :: "jsval \<Rightarrow> bool" where
  "truthy JUndefined = False"
| "truthy JNull = False"
| "truthy (JBool b) = b"
| "truthy (JNum n) = (n \<noteq> 0)"
| "truthy (JStr s) = (s \<noteq> [])"
| "truthy (JObj fields) = True"

definition js_or :: "jsval \<Rightarrow> jsval \<Rightarrow> jsval" where
  "js_or a b = (if truthy a then a else b)"

text \<open>The enum \<open>HTTPMethod\<close> of \<open>IUnit.ts\<close>.\<close>

datatype HTTPMethod = GET | POST | PUT | PATCH | HEAD | DELETE

text \<open>
  Of an \<open>AxiosResponse\<close> the code reads the status only (in the default
  \<open>verify\<close>); the payload is kept beside it.
\<close>

record AxiosResponse =
  status :: int
  data :: jsval

text \<open>
  The values a promise is rejected with and a function throws: the \<open>AxiosError\<close> of a
  transport call that failed, the \<open>Error\<close> and \<open>TypeError\<close> objects the library and the
  language create, and any value a callback throws. A \<open>catch\<close> handler is typed with
  \<open>AxiosError\<close> in the source and receives whichever of them arrives.
\<close>

datatype error =
    AxiosError string
  | Error string
  | TypeError string
  | Thrown jsval

section \<open>Callbacks\<close>

text \<open>
  A callback is a function of the embedding application, called for its effect. It is
  modelled as a transformer of the application's own state \<open>'w\<close> that ends in one of
  two ways: it returns a value (\<open>Inr\<close>) or it throws one (\<open>Inl\<close>); what it did to the
  state before it threw stays done. A callback comes to an end, and it does not touch the
  objects of the tree. The \<open>verify\<close> member of an \<open>Api\<close> is a caller-supplied function
  as well.
\<close>

type_synonym 'w callback = "AxiosResponse \<Rightarrow> 'w \<Rightarrow> (error + jsval) \<times> 'w"

type_synonym 'w error_callback = "error \<Rightarrow> 'w \<Rightarrow> (error + jsval) \<times> 'w"

type_synonym 'w verifier = "AxiosResponse \<Rightarrow> 'w \<Rightarrow> (error + bool) \<times> 'w"

text \<open>
  Statements run one after the other: the second runs in the state the first left, and
  does not run when the first threw.
\<close>

definition and_then ::
  "(error + 'a) \<times> 'w \<Rightarrow> ('a \<Rightarrow> 'w \<Rightarrow> (error + 'b) \<times> 'w) \<Rightarrow> (error + 'b) \<times> 'w" where
  "and_then m f = (case m of (Inl e, w) \<Rightarrow> (Inl e, w) | (Inr x, w) \<Rightarrow> f x w)"

section \<open>Objects\<close>

text \<open>
  Header sets (\<open>AxiosHeaders\<close>), query maps (\<open>Map<string, string>\<close>), callback arrays
  and \<open>Api\<close> instances are objects with identity: they live in a heap and the fields
  of the tree hold references to them. This is what makes \<open>clone\<close> a shallow copy.
\<close>

type_synonym ref = nat

text \<open>
  The interface \<open>IUnit\<close> and the four classes. \<open>Module\<close>, \<open>WebSite\<close> and
  \<open>TestEngine\<close> values are never copied or assigned to by \<open>start\<close>; only their
  containers are shared, so they are records of references. The child arrays are read
  by \<open>start\<close> only and are kept as lists.
\<close>

record 'w IUnit =
  name :: string
  description :: string
  path :: string
  headers :: ref
  querys :: ref
  success_callbacks :: ref
  fail_callbacks :: ref
  error_callback :: "'w error_callback"

record 'w Api = "'w IUnit" +
  data :: jsval
  method' :: HTTPMethod
  verify :: "'w verifier"

record 'w Module = "'w IUnit" +
  apis :: "ref list"

record 'w WebSite = "'w IUnit" +
  modules :: "'w Module list"

record 'w TestEngine = "'w IUnit" +
  webSites :: "'w WebSite list"

record 'w heap =
  next_ref :: ref
  AxiosHeaders_objs :: "ref \<Rightarrow> (string \<times> string) list"
  Map_objs :: "ref \<Rightarrow> (string \<times> string) list"
  Array_objs :: "ref \<Rightarrow> 'w callback list"
  Api_objs :: "ref \<Rightarrow> 'w Api"

text \<open>The configuration objects the four constructors destructure.\<close>

record 'w TestEngine_config =
  headers :: "ref option"
  querys :: "ref option"
  success_callbacks :: "ref option"
  fail_callbacks :: "ref option"
  error_callback :: "'w error_callback option"
  webSites :: "'w WebSite list option"
  name :: "string option"
  description :: "string option"

record 'w WebSite_config =
  path :: string
  headers :: "ref option"
  querys :: "ref option"
  success_callbacks :: "ref option"
  fail_callbacks :: "ref option"
  error_callback :: "'w error_callback option"
  modules :: "'w Module list option"
  name :: "string option"
  description :: "string option"

record 'w Module_config =
  path :: string
  headers :: "ref option"
  querys :: "ref option"
  success_callbacks :: "ref option"
  fail_callbacks :: "ref option"
  error_callback :: "'w error_callback option"
  apis :: "ref list option"
  name :: "string option"
  description :: "string option"

record 'w Api_config =
  path :: string
  method' :: HTTPMethod
  headers :: "ref option"
  querys :: "ref option"
  success_callbacks :: "ref option"
  fail_callbacks :: "ref option"
  error_callback :: "'w error_callback option"
  verify :: "'w verifier option"
  data :: "jsval option"
  name :: "string option"
  description :: "string option"

text \<open>The object \<open>HTTPClient.do\<close> hands to \<open>axios.request\<close>.\<close>

record AxiosRequestConfig =
  method' :: HTTPMethod
  url :: string
  headers :: ref
  params :: ref
  data :: jsval

definition allocated :: "'w heap \<Rightarrow> ref \<Rightarrow> bool" where
  "allocated h r = (r < next_ref h)"

definition new_object :: "'w heap \<Rightarrow> ref \<times> 'w heap" where
  "new_object h = (next_ref h, h\<lparr>next_ref := Suc (next_ref h)\<rparr>)"

text \<open>The heap of a program that has not created an object yet.\<close>

definition empty_heap :: "'w heap" where
  "empty_heap =
     \<lparr>next_ref = 0,
      AxiosHeaders_objs = (\<lambda>_. []),
      Map_objs = (\<lambda>_. []),
      Array_objs = (\<lambda>_. []),
      Api_objs = (\<lambda>_. \<lparr>IUnit.name = [], IUnit.description = [], IUnit.path = [],
                          IUnit.headers = 0, IUnit.querys = 0,
                          IUnit.success_callbacks = 0, IUnit.fail_callbacks = 0,
                          IUnit.error_callback = (\<lambda>_ w. (Inr JUndefined, w)),
                          Api.data = JUndefined, Api.method' = GET,
                          Api.verify = (\<lambda>_ w. (Inr False, w))\<rparr>)\<rparr>"

subsection \<open>Keyed containers\<close>

text \<open>
  \<open>Map.set\<close> stores a value under a key: an existing entry keeps its place and gets
  the new value, a new key goes to the end. Entries are kept in insertion order, the
  order \<open>forEach\<close> visits them in. Keys are compared as the strings they are.
\<close>

fun upsert :: "'k \<Rightarrow> 'v \<Rightarrow> ('k \<times> 'v) list \<Rightarrow> ('k \<times> 'v) list" where
  "upsert k v [] = [(k, v)]"
| "upsert k v ((k', v') # kvs) =
     (if k' = k then (k, v) # kvs else (k', v') # upsert k v kvs)"

definition set_all :: "('k \<times> 'v) list \<Rightarrow> ('k \<times> 'v) list \<Rightarrow> ('k \<times> 'v) list" where
  "set_all entries acc = fold (\<lambda>(k, v). upsert k v) entries acc"

definition Map_new :: "'w heap \<Rightarrow> ref \<times> 'w heap" where
  "Map_new h =
     (let (r, h1) = new_object h
      in (r, h1\<lparr>Map_objs := (Map_objs h1)(r := [])\<rparr>))"

definition Map_set :: "ref \<Rightarrow> string \<Rightarrow> string \<Rightarrow> 'w heap \<Rightarrow> 'w heap" where
  "Map_set r key val h =
     h\<lparr>Map_objs := (Map_objs h)(r := upsert key val (Map_objs h r))\<rparr>"

definition Array_new :: "'w heap \<Rightarrow> ref \<times> 'w heap" where
  "Array_new h =
     (let (r, h1) = new_object h
      in (r, h1\<lparr>Array_objs := (Array_objs h1)(r := [])\<rparr>))"


text \<open>\<open>forEach\<close> over an array whose elements are known when the loop starts.\<close>

definition forEach :: "'a list \<Rightarrow> ('a \<Rightarrow> 's \<Rightarrow> 's) \<Rightarrow> 's \<Rightarrow> 's" where
  "forEach xs f s = fold f xs s"

subsection \<open>Header objects\<close>

text \<open>
  \<open>AxiosHeaders\<close> is a class of the library \<open>axios\<close>. An instance keeps every header
  as a property of its own, under the name the header was first written with, and finds
  a header again by its name in lower case. The functions below are the library's
  \<open>normalizeHeader\<close>, \<open>isValidHeaderName\<close>, \<open>findKey\<close> and the local function
  \<open>setHeader\<close> of \<open>set\<close>. A string is a sequence of 8-bit characters, read as the code
  points below 256; \<open>trim\<close> removes the white space and the line ends among them, and
  \<open>toLowerCase\<close> maps the upper-case letters among them. The entries of an object are
  listed in the order they were created in (the language lists names that are numbers
  before the others; no two names of a header object are equal in lower case, so that
  nothing below depends on the order).
\<close>

definition whitespace :: "char list" where
  "whitespace = [CHR 0x09, CHR 0x0A, CHR 0x0B, CHR 0x0C, CHR 0x0D, CHR 0x20, CHR 0xA0]"

definition trim :: "string \<Rightarrow> string" where
  "trim s =
     rev (dropWhile (\<lambda>c. c \<in> set whitespace) (rev (dropWhile (\<lambda>c. c \<in> set whitespace) s)))"

definition upper_case :: "char list" where
  "upper_case = ''ABCDEFGHIJKLMNOPQRSTUVWXYZ'' @
     [CHR 0xC0, CHR 0xC1, CHR 0xC2, CHR 0xC3, CHR 0xC4, CHR 0xC5, CHR 0xC6, CHR 0xC7,
      CHR 0xC8, CHR 0xC9, CHR 0xCA, CHR 0xCB, CHR 0xCC, CHR 0xCD, CHR 0xCE, CHR 0xCF,
      CHR 0xD0, CHR 0xD1, CHR 0xD2, CHR 0xD3, CHR 0xD4, CHR 0xD5, CHR 0xD6, CHR 0xD8,
      CHR 0xD9, CHR 0xDA, CHR 0xDB, CHR 0xDC, CHR 0xDD, CHR 0xDE]"

definition lower_case :: "char list" where
  "lower_case = ''abcdefghijklmnopqrstuvwxyz'' @
     [CHR 0xE0, CHR 0xE1, CHR 0xE2, CHR 0xE3, CHR 0xE4, CHR 0xE5, CHR 0xE6, CHR 0xE7,
      CHR 0xE8, CHR 0xE9, CHR 0xEA, CHR 0xEB, CHR 0xEC, CHR 0xED, CHR 0xEE, CHR 0xEF,
      CHR 0xF0, CHR 0xF1, CHR 0xF2, CHR 0xF3, CHR 0xF4, CHR 0xF5, CHR 0xF6, CHR 0xF8,
      CHR 0xF9, CHR 0xFA, CHR 0xFB, CHR 0xFC, CHR 0xFD, CHR 0xFE]"

definition toLowerCase :: "string \<Rightarrow> string" where
  "toLowerCase s =
     map (\<lambda>c. case map_of (zip upper_case lower_case) c of Some l \<Rightarrow> l | None \<Rightarrow> c) s"

definition normalizeHeader :: "string \<Rightarrow> string" where
  "normalizeHeader header = toLowerCase (trim header)"

text \<open>
  The characters of the regular expression of \<open>isValidHeaderName\<close>: letters, digits and
  the punctuation of a token, the last two being the backquote and the apostrophe.
\<close>

definition token_chars :: "char list" where
  "token_chars =
     ''-_abcdefghijklmnopqrstuvwxyzABCDEFGHIJKLMNOPQRSTUVWXYZ0123456789^|~,!#$%&*+.'' @
     [CHR 0x60, CHR 0x27]"

definition isValidHeaderName :: "string \<Rightarrow> bool" where
  "isValidHeaderName str =
     (trim str \<noteq> [] \<and> list_all (\<lambda>c. c \<in> set token_chars) (trim str))"

text \<open>
  \<open>findKey\<close> goes through the names of the object from the last to the first and
  returns the first that equals the key when both are in lower case.
\<close>

definition findKey :: "(string \<times> string) list \<Rightarrow> string \<Rightarrow> string option" where
  "findKey obj key =
     find (\<lambda>own. toLowerCase own = toLowerCase key) (rev (map fst obj))"

text \<open>
  The assignment \<open>self[key] = value\<close>. The name \<open>__proto__\<close> is not a property of the
  object but an accessor it inherits, which ignores a string.
\<close>

definition assign_property ::
  "string \<Rightarrow> string \<Rightarrow> (string \<times> string) list \<Rightarrow> (string \<times> string) list" where
  "assign_property key val self = (if key = ''__proto__'' then self else upsert key val self)"

text \<open>
  \<open>setHeader\<close> as \<open>set\<close> calls it for a name and a value that are strings, without the
  \<open>rewrite\<close> argument. It refuses a name that is empty once normalised; otherwise
  \<open>store_header\<close>, the rest of its body, writes the value under the name \<open>findKey\<close>
  finds, or under the name as given when there is none: a value that is there is
  overwritten, under the name it has.
\<close>

definition store_header ::
  "string \<Rightarrow> string \<Rightarrow> (string \<times> string) list \<Rightarrow> (string \<times> string) list" where
  "store_header val header self =
     assign_property
       (case findKey self (normalizeHeader header) of Some key \<Rightarrow> key | None \<Rightarrow> header)
       val self"

definition setHeader ::
  "string \<Rightarrow> string \<Rightarrow> (string \<times> string) list \<Rightarrow> error + (string \<times> string) list" where
  "setHeader val header self =
     (if normalizeHeader header = [] then Inl (Error ''header name must be a non-empty string'')
      else Inr (store_header val header self))"

text \<open>
  \<open>set\<close> given a header object: every entry of the source goes through \<open>setHeader\<close>.
  The names of the entries of a header object are not empty, so none of these calls
  throws and each stores its entry.
\<close>

definition setHeaders ::
  "(string \<times> string) list \<Rightarrow> (string \<times> string) list \<Rightarrow> (string \<times> string) list" where
  "setHeaders source self = fold (\<lambda>(header, val). store_header val header) source self"

text \<open>
  How a call of a method ends: it returns, it throws, or (for \<open>set\<close> alone) it is
  given a name that is no header name, which the library takes for the text of raw
  headers and parses. What is stored then is outside this development.
\<close>

datatype 'a outcome =
    Returns 'a
  | Throws error
  | Raw_headers

definition AxiosHeaders_new :: "'w heap \<Rightarrow> ref \<times> 'w heap" where
  "AxiosHeaders_new h =
     (let (r, h1) = new_object h
      in (r, h1\<lparr>AxiosHeaders_objs := (AxiosHeaders_objs h1)(r := [])\<rparr>))"

text \<open>
  The call \<open>headers.set(key, value)\<close> with two strings. An entry named \<open>set\<close> hides the
  method, and an entry named \<open>constructor\<close> the class that \<open>set\<close> tests its first
  argument against: either makes the call a \<open>TypeError\<close>. Otherwise \<open>set\<close> trims the
  name and, when it is empty or a header name, hands it to \<open>setHeader\<close>.
\<close>

definition AxiosHeaders_set :: "ref \<Rightarrow> string \<Rightarrow> string \<Rightarrow> 'w heap \<Rightarrow> 'w heap outcome" where
  "AxiosHeaders_set r header val h =
     (let self = AxiosHeaders_objs h r
      in if ''set'' \<in> set (map fst self) then Throws (TypeError ''set is not a function'')
         else if ''constructor'' \<in> set (map fst self)
         then Throws (TypeError ''right-hand side of instanceof is not callable'')
         else if trim header \<noteq> [] \<and> \<not> isValidHeaderName (trim header) then Raw_headers
         else (case setHeader val (trim header) self of
                 Inl e \<Rightarrow> Throws e
               | Inr self' \<Rightarrow>
                   Returns (h\<lparr>AxiosHeaders_objs := (AxiosHeaders_objs h)(r := self')\<rparr>)))"

text \<open>
  \<open>AxiosHeaders.concat\<close> merges the receiver and the target into a new instance, which
  it returns; the receiver and the target stay as they are.
\<close>

definition AxiosHeaders_concat :: "ref \<Rightarrow> ref \<Rightarrow> 'w heap \<Rightarrow> ref \<times> 'w heap" where
  "AxiosHeaders_concat r target h =
     (let (computed, h1) = new_object h;
          merged = setHeaders (AxiosHeaders_objs h target) (setHeaders (AxiosHeaders_objs h r) [])
      in (computed, h1\<lparr>AxiosHeaders_objs := (AxiosHeaders_objs h1)(computed := merged)\<rparr>))"


subsection \<open>Defaults of the constructors\<close>

text \<open>
  \<open>x || new C()\<close> for an optional object (an object is always truthy),
  \<open>x || d\<close> for an optional function or array, and \<open>s || d\<close> for an optional
  string, where the empty string is falsy.
\<close>

definition or_new :: "ref option \<Rightarrow> ('w heap \<Rightarrow> ref \<times> 'w heap) \<Rightarrow> 'w heap \<Rightarrow> ref \<times> 'w heap" where
  "or_new x mk h = (case x of Some r \<Rightarrow> (r, h) | None \<Rightarrow> mk h)"

definition or_default :: "'a option \<Rightarrow> 'a \<Rightarrow> 'a" where
  "or_default x d = (case x of Some f \<Rightarrow> f | None \<Rightarrow> d)"

definition or_string :: "string option \<Rightarrow> string \<Rightarrow> string" where
  "or_string x d = (case x of Some s \<Rightarrow> (if s = [] then d else s) | None \<Rightarrow> d)"

definition or_data :: "jsval option \<Rightarrow> jsval \<Rightarrow> jsval" where
  "or_data x d = (case x of Some v \<Rightarrow> js_or v d | None \<Rightarrow> d)"

definition noop :: "'w error_callback" where
  "noop = (\<lambda>_ w. (Inr JUndefined, w))"

definition status_is_200 :: "'w verifier" where
  "status_is_200 = (\<lambda>r w. (Inr (status r = 200), w))"

section \<open>The members shared by the four classes\<close>



definition addHeader ::
  "('w, 'z) IUnit_scheme \<Rightarrow> string \<Rightarrow> string \<Rightarrow> 'w heap \<Rightarrow> 'w heap outcome" where
  "addHeader this key val h = AxiosHeaders_set (IUnit.headers this) key val h"

definition addQuery :: "('w, 'z) IUnit_scheme \<Rightarrow> string \<Rightarrow> string \<Rightarrow> 'w heap \<Rightarrow> 'w heap" where
  "addQuery this key val h = Map_set (IUnit.querys this) key val h"

text \<open>
  \<open>notify\<close> and \<open>fail\<close> call every callback of the array with the response, in array
  order, and push each returned value onto \<open>result\<close>. A callback that throws ends the
  loop and the method: the callbacks after it are not called.
\<close>

fun call_each ::
  "'w callback list \<Rightarrow> AxiosResponse \<Rightarrow> jsval list \<Rightarrow> 'w \<Rightarrow> (error + jsval list) \<times> 'w" where
  "call_each [] response result w = (Inr result, w)"
| "call_each (callback # callbacks) response result w =
     (case callback response w of
        (Inl e, w') \<Rightarrow> (Inl e, w')
      | (Inr x, w') \<Rightarrow> call_each callbacks response (result @ [x]) w')"

definition notify ::
  "('w, 'z) IUnit_scheme \<Rightarrow> AxiosResponse \<Rightarrow> 'w heap \<Rightarrow> 'w \<Rightarrow> (error + jsval list) \<times> 'w" where
  "notify this response h w = call_each (Array_objs h (IUnit.success_callbacks this)) response [] w"

definition fail ::
  "('w, 'z) IUnit_scheme \<Rightarrow> AxiosResponse \<Rightarrow> 'w heap \<Rightarrow> 'w \<Rightarrow> (error + jsval list) \<times> 'w" where
  "fail this response h w = call_each (Array_objs h (IUnit.fail_callbacks this)) response [] w"

text \<open>
  \<open>addWebSites\<close>, \<open>addModules\<close> and \<open>addApis\<close> push every element of their
  argument onto the child array; the receiver is returned with the longer array.
\<close>

definition addWebSites :: "'w TestEngine \<Rightarrow> 'w WebSite list \<Rightarrow> 'w TestEngine" where
  "addWebSites this sites =
     forEach sites (\<lambda>webSite e. e\<lparr>TestEngine.webSites := TestEngine.webSites e @ [webSite]\<rparr>) this"

definition addModules :: "'w WebSite \<Rightarrow> 'w Module list \<Rightarrow> 'w WebSite" where
  "addModules this ms =
     forEach ms (\<lambda>m s. s\<lparr>WebSite.modules := WebSite.modules s @ [m]\<rparr>) this"

definition addApis :: "'w Module \<Rightarrow> ref list \<Rightarrow> 'w Module" where
  "addApis this as =
     forEach as (\<lambda>api m. m\<lparr>Module.apis := Module.apis m @ [api]\<rparr>) this"

section \<open>Constructors\<close>

text \<open>
  Each constructor assigns the fields in the order of the source; the objects it
  creates for omitted options are allocated in that order. The constructor of
  \<open>TestEngine\<close> destructures no \<open>path\<close> and assigns the empty string.
\<close>

definition TestEngine_new :: "'w TestEngine_config \<Rightarrow> 'w heap \<Rightarrow> 'w TestEngine \<times> 'w heap" where
  "TestEngine_new c h =
     (let (hs, h1) = or_new (TestEngine_config.headers c) AxiosHeaders_new h;
          (qs, h2) = or_new (TestEngine_config.querys c) Map_new h1;
          (sc, h3) = or_new (TestEngine_config.success_callbacks c) Array_new h2;
          (fc, h4) = or_new (TestEngine_config.fail_callbacks c) Array_new h3
      in (\<lparr>IUnit.name = or_string (TestEngine_config.name c) ''TestEngine'',
           IUnit.description = or_string (TestEngine_config.description c) ''TestEngine'',
           IUnit.path = [],
           IUnit.headers = hs,
           IUnit.querys = qs,
           IUnit.success_callbacks = sc,
           IUnit.fail_callbacks = fc,
           IUnit.error_callback = or_default (TestEngine_config.error_callback c) noop,
           TestEngine.webSites = or_default (TestEngine_config.webSites c) []\<rparr>, h4))"

definition WebSite_new :: "'w WebSite_config \<Rightarrow> 'w heap \<Rightarrow> 'w WebSite \<times> 'w heap" where
  "WebSite_new c h =
     (let (hs, h1) = or_new (WebSite_config.headers c) AxiosHeaders_new h;
          (qs, h2) = or_new (WebSite_config.querys c) Map_new h1;
          (sc, h3) = or_new (WebSite_config.success_callbacks c) Array_new h2;
          (fc, h4) = or_new (WebSite_config.fail_callbacks c) Array_new h3
      in (\<lparr>IUnit.name = or_string (WebSite_config.name c) [],
           IUnit.description = or_string (WebSite_config.description c) [],
           IUnit.path = WebSite_config.path c,
           IUnit.headers = hs,
           IUnit.querys = qs,
           IUnit.success_callbacks = sc,
           IUnit.fail_callbacks = fc,
           IUnit.error_callback = or_default (WebSite_config.error_callback c) noop,
           WebSite.modules = or_default (WebSite_config.modules c) []\<rparr>, h4))"

definition Module_new :: "'w Module_config \<Rightarrow> 'w heap \<Rightarrow> 'w Module \<times> 'w heap" where
  "Module_new c h =
     (let (hs, h1) = or_new (Module_config.headers c) AxiosHeaders_new h;
          (qs, h2) = or_new (Module_config.querys c) Map_new h1;
          (sc, h3) = or_new (Module_config.success_callbacks c) Array_new h2;
          (fc, h4) = or_new (Module_config.fail_callbacks c) Array_new h3
      in (\<lparr>IUnit.name = or_string (Module_config.name c) [],
           IUnit.description = or_string (Module_config.description c) [],
           IUnit.path = Module_config.path c,
           IUnit.headers = hs,
           IUnit.querys = qs,
           IUnit.success_callbacks = sc,
           IUnit.fail_callbacks = fc,
           IUnit.error_callback = or_default (Module_config.error_callback c) noop,
           Module.apis = or_default (Module_config.apis c) []\<rparr>, h4))"

text \<open>
  An \<open>Api\<close> instance is itself an object of the heap: \<open>new Api\<close> allocates it and
  returns its reference.
\<close>

definition Api_new :: "'w Api_config \<Rightarrow> 'w heap \<Rightarrow> ref \<times> 'w heap" where
  "Api_new c h =
     (let (this, h0) = new_object h;
          (hs, h1) = or_new (Api_config.headers c) AxiosHeaders_new h0;
          (qs, h2) = or_new (Api_config.querys c) Map_new h1;
          (sc, h3) = or_new (Api_config.success_callbacks c) Array_new h2;
          (fc, h4) = or_new (Api_config.fail_callbacks c) Array_new h3;
          obj = \<lparr>IUnit.name = or_string (Api_config.name c) [],
                 IUnit.description = or_string (Api_config.description c) [],
                 IUnit.path = Api_config.path c,
                 IUnit.headers = hs,
                 IUnit.querys = qs,
                 IUnit.success_callbacks = sc,
                 IUnit.fail_callbacks = fc,
                 IUnit.error_callback = or_default (Api_config.error_callback c) noop,
                 Api.data = or_data (Api_config.data c) (JObj []),
                 Api.method' = Api_config.method' c,
                 Api.verify = or_default (Api_config.verify c) status_is_200\<rparr>
      in (this, h4\<lparr>Api_objs := (Api_objs h4)(this := obj)\<rparr>))"

text \<open>\<open>Api.clone\<close>: a new \<open>Api\<close> built from the fields of the receiver.\<close>

definition clone :: "ref \<Rightarrow> 'w heap \<Rightarrow> ref \<times> 'w heap" where
  "clone this h =
     (let a = Api_objs h this
      in Api_new
           \<lparr>Api_config.path = IUnit.path a,
            Api_config.method' = Api.method' a,
            Api_config.headers = Some (IUnit.headers a),
            Api_config.querys = Some (IUnit.querys a),
            Api_config.success_callbacks = Some (IUnit.success_callbacks a),
            Api_config.fail_callbacks = Some (IUnit.fail_callbacks a),
            Api_config.error_callback = Some (IUnit.error_callback a),
            Api_config.verify = Some (Api.verify a),
            Api_config.data = Some (Api.data a),
            Api_config.name = Some (IUnit.name a),
            Api_config.description = Some (IUnit.description a)\<rparr>
           h)"

section \<open>Dispatch: \<open>TestEngine.start\<close>\<close>

text \<open>
  \<open>HTTPClient.do\<close> builds the request from the fields of the \<open>Api\<close> it is given and
  passes it to \<open>axios.request\<close>, which returns a promise. The header set and the query
  map go into the request by reference.
\<close>

definition HTTPClient_do :: "ref \<Rightarrow> 'w heap \<Rightarrow> AxiosRequestConfig" where
  "HTTPClient_do api h =
     (let a = Api_objs h api
      in \<lparr>AxiosRequestConfig.method' = Api.method' a,
          AxiosRequestConfig.url = IUnit.path a,
          AxiosRequestConfig.headers = IUnit.headers a,
          AxiosRequestConfig.params = IUnit.querys a,
          AxiosRequestConfig.data = Api.data a\<rparr>)"

text \<open>
  A pending promise: the request that was sent, and the variables its \<open>then\<close> and
  \<open>catch\<close> handlers close over (\<open>this\<close>, \<open>webSite\<close>, \<open>module\<close>, \<open>api\<close>).
\<close>

record 'w pending =
  p_request :: AxiosRequestConfig
  p_engine :: "'w TestEngine"
  p_webSite :: "'w WebSite"
  p_module :: "'w Module"
  p_api :: ref

text \<open>
  The array \<open>[this, webSite, module, api]\<close>. Its elements are references; a field of a
  level is read when the loop body runs, so each element is a reader of the heap. The
  first three levels have no assignable state in the heap.
\<close>

definition levels ::
  "'w TestEngine \<Rightarrow> 'w WebSite \<Rightarrow> 'w Module \<Rightarrow> ref \<Rightarrow> ('w heap \<Rightarrow> 'w IUnit) list" where
  "levels this webSite module api =
     [\<lambda>h. IUnit.truncate this,
      \<lambda>h. IUnit.truncate webSite,
      \<lambda>h. IUnit.truncate module,
      \<lambda>h. IUnit.truncate (Api_objs h api)]"

text \<open>An assignment \<open>capi.f = v\<close> to a field of an \<open>Api\<close> object.\<close>

definition Api_assign :: "ref \<Rightarrow> ('w Api \<Rightarrow> 'w Api) \<Rightarrow> 'w heap \<Rightarrow> 'w heap" where
  "Api_assign r f h = h\<lparr>Api_objs := (Api_objs h)(r := f (Api_objs h r))\<rparr>"

text \<open>
  The body of the innermost loop of \<open>start\<close>, up to the call of \<open>client.do\<close>. The
  value of \<open>header.concat(level.headers)\<close> is not used by the loop body.
\<close>

definition start_api ::
  "'w TestEngine \<Rightarrow> 'w WebSite \<Rightarrow> 'w Module \<Rightarrow> ref \<Rightarrow> 'w heap \<Rightarrow> 'w pending \<times> 'w heap" where
  "start_api this webSite module api h =
     (let (capi, h1) = clone api h;
          (header, h2) = AxiosHeaders_new h1;
          (params', h3) = Map_new h2;
          h4 = forEach (levels this webSite module api)
                 (\<lambda>level s. snd (AxiosHeaders_concat header (IUnit.headers (level s)) s)) h3;
          h5 = Api_assign capi (\<lambda>a. a\<lparr>IUnit.headers := header\<rparr>) h4;
          h6 = Api_assign capi
                 (\<lambda>a. a\<lparr>IUnit.path :=
                          concat (map (\<lambda>level. IUnit.path (level h5)) (levels this webSite module api))\<rparr>)
                 h5;
          h7 = forEach (levels this webSite module api)
                 (\<lambda>level s.
                    forEach (Map_objs s (IUnit.querys (level s)))
                      (\<lambda>(key, val) s'. Map_set params' key val s') s)
                 h6;
          h8 = Api_assign capi (\<lambda>a. a\<lparr>IUnit.querys := params'\<rparr>) h7
      in (\<lparr>p_request = HTTPClient_do capi h8,
           p_engine = this,
           p_webSite = webSite,
           p_module = module,
           p_api = api\<rparr>, h8))"

definition start :: "'w TestEngine \<Rightarrow> 'w heap \<Rightarrow> 'w pending list \<times> 'w heap" where
  "start this h =
     forEach (TestEngine.webSites this)
       (\<lambda>webSite.
          forEach (WebSite.modules webSite)
            (\<lambda>module.
               forEach (Module.apis module)
                 (\<lambda>api (ps, s). case start_api this webSite module api s of
                                   (p, s') \<Rightarrow> (ps @ [p], s'))))
       ([], h)"

subsection \<open>Completion handlers\<close>

text \<open>
  The handler given to \<open>then\<close>: it runs when the transport call resolves with a
  response. The arrays returned by \<open>notify\<close> and \<open>fail\<close> are dropped. An exception
  thrown by \<open>verify\<close> or by a callback ends the handler at that statement.
\<close>

definition on_fulfilled ::
  "'w TestEngine \<Rightarrow> 'w WebSite \<Rightarrow> 'w Module \<Rightarrow> ref \<Rightarrow> AxiosResponse \<Rightarrow> 'w heap \<Rightarrow> 'w \<Rightarrow>
     (error + unit) \<times> 'w" where
  "on_fulfilled this webSite module api response h w =
     and_then (Api.verify (Api_objs h api) response w)
       (\<lambda>ok w0.
          if ok then
            and_then (notify (Api_objs h api) response h w0)
              (\<lambda>_ w1. and_then (notify module response h w1)
                 (\<lambda>_ w2. and_then (notify webSite response h w2)
                    (\<lambda>_ w3. and_then (notify this response h w3)
                       (\<lambda>_ w4. (Inr (), w4)))))
          else
            and_then (fail (Api_objs h api) response h w0)
              (\<lambda>_ w1. and_then (fail module response h w1)
                 (\<lambda>_ w2. and_then (fail webSite response h w2)
                    (\<lambda>_ w3. and_then (fail this response h w3)
                       (\<lambda>_ w4. (Inr (), w4))))))"

text \<open>
  The handler given to \<open>catch\<close>. An error callback that throws ends the handler there.
\<close>

definition on_rejected ::
  "'w TestEngine \<Rightarrow> 'w WebSite \<Rightarrow> 'w Module \<Rightarrow> ref \<Rightarrow> error \<Rightarrow> 'w heap \<Rightarrow> 'w \<Rightarrow>
     (error + unit) \<times> 'w" where
  "on_rejected this webSite module api error h w =
     and_then (IUnit.error_callback (Api_objs h api) error w)
       (\<lambda>_ w1. and_then (IUnit.error_callback module error w1)
          (\<lambda>_ w2. and_then (IUnit.error_callback webSite error w2)
             (\<lambda>_ w3. and_then (IUnit.error_callback this error w3)
                (\<lambda>_ w4. (Inr (), w4)))))"

text \<open>
  The chain \<open>client.do(capi).then(\<dots>).catch(\<dots>)\<close>. The transport call settles once, with
  an error (\<open>Inl\<close>) or a response (\<open>Inr\<close>); \<open>h\<close> is the heap at that moment. The
  \<open>catch\<close> handler runs when the transport call rejects, and also when the \<open>then\<close>
  handler throws, with what it threw. The result is how the promise at the end of the
  chain settles: fulfilled (\<open>Inr\<close>), or rejected (\<open>Inl\<close>) with what the \<open>catch\<close> handler
  threw. \<open>start\<close> drops that promise, so such a rejection is handled by nothing.
\<close>

definition settle ::
  "'w pending \<Rightarrow> error + AxiosResponse \<Rightarrow> 'w heap \<Rightarrow> 'w \<Rightarrow> (error + unit) \<times> 'w" where
  "settle p outcome h w =
     (case outcome of
        Inr response \<Rightarrow>
          (case on_fulfilled (p_engine p) (p_webSite p) (p_module p) (p_api p) response h w of
             (Inl thrown, w') \<Rightarrow>
               on_rejected (p_engine p) (p_webSite p) (p_module p) (p_api p) thrown h w'
           | (Inr u, w') \<Rightarrow> (Inr u, w'))
      | Inl error \<Rightarrow> on_rejected (p_engine p) (p_webSite p) (p_module p) (p_api p) error h w)"

text \<open>
  The promises settle in an order the program does not control: a run is given as the
  list of settlements, each naming a promise by its position in the list \<open>start\<close>
  issued, and each delivered in a turn of the event loop of its own. A rejection that
  nothing handles is raised by Node.js as an uncaught exception, which ends the process:
  the settlements after it are not delivered. The result of a run is that exception, if
  there was one, and the state of the application at the end.
\<close>

fun settle_all ::
  "'w pending list \<Rightarrow> (nat \<times> (error + AxiosResponse)) list \<Rightarrow> 'w heap \<Rightarrow> 'w \<Rightarrow>
     (error + unit) \<times> 'w" where
  "settle_all ps [] h w = (Inr (), w)"
| "settle_all ps ((i, outcome) # settlements) h w =
     (if i < length ps then
        (case settle (ps ! i) outcome h w of
           (Inl unhandled, w') \<Rightarrow> (Inl unhandled, w')
         | (Inr _, w') \<Rightarrow> settle_all ps settlements h w')
      else settle_all ps settlements h w)"

section \<open>Calls in sequence\<close>

text \<open>
  The claims about the handlers speak of functions that are called one after the other
  with the same argument. \<open>call_in_order fs x w\<close> calls the functions of the list \<open>fs\<close>
  with \<open>x\<close>, from the first to the last, each in the state the one before left; the
  first that throws ends the sequence, and the functions after it are not called.
  \<open>all_return fs x w\<close> says that in this sequence, started in the state \<open>w\<close>, every
  function returns.
\<close>

fun call_in_order :: "('x \<Rightarrow> 'w \<Rightarrow> (error + 'a) \<times> 'w) list \<Rightarrow> 'x \<Rightarrow> 'w \<Rightarrow> (error + unit) \<times> 'w" where
  "call_in_order [] x w = (Inr (), w)"
| "call_in_order (f # fs) x w =
     (case f x w of
        (Inl e, w') \<Rightarrow> (Inl e, w')
      | (Inr _, w') \<Rightarrow> call_in_order fs x w')"

fun all_return :: "('x \<Rightarrow> 'w \<Rightarrow> (error + 'a) \<times> 'w) list \<Rightarrow> 'x \<Rightarrow> 'w \<Rightarrow> bool" where
  "all_return [] x w = True"
| "all_return (f # fs) x w =
     (case f x w of
        (Inl e, w') \<Rightarrow> False
      | (Inr _, w') \<Rightarrow> all_return fs x w')"

text \<open>
  The functions a dispatch can call when its promise settles, from the leaf to the root:
  the error callbacks of the Endpoint, the Module, the Site and the Engine; the success
  callbacks of the four levels, each array in its own order; and the fail callbacks
  likewise. They are read from the heap when the promise settles.
\<close>

definition error_chain ::
  "'w TestEngine \<Rightarrow> 'w WebSite \<Rightarrow> 'w Module \<Rightarrow> ref \<Rightarrow> 'w heap \<Rightarrow> 'w error_callback list" where
  "error_chain this webSite module api h =
     [IUnit.error_callback (Api_objs h api), IUnit.error_callback module,
      IUnit.error_callback webSite, IUnit.error_callback this]"

definition success_chain ::
  "'w TestEngine \<Rightarrow> 'w WebSite \<Rightarrow> 'w Module \<Rightarrow> ref \<Rightarrow> 'w heap \<Rightarrow> 'w callback list" where
  "success_chain this webSite module api h =
     Array_objs h (IUnit.success_callbacks (Api_objs h api)) @
     Array_objs h (IUnit.success_callbacks module) @
     Array_objs h (IUnit.success_callbacks webSite) @
     Array_objs h (IUnit.success_callbacks this)"

definition fail_chain ::
  "'w TestEngine \<Rightarrow> 'w WebSite \<Rightarrow> 'w Module \<Rightarrow> ref \<Rightarrow> 'w heap \<Rightarrow> 'w callback list" where
  "fail_chain this webSite module api h =
     Array_objs h (IUnit.fail_callbacks (Api_objs h api)) @
     Array_objs h (IUnit.fail_callbacks module) @
     Array_objs h (IUnit.fail_callbacks webSite) @
     Array_objs h (IUnit.fail_callbacks this)"

section \<open>Well-formed objects\<close>

text \<open>
  A reference names a \<open>Map\<close> of the heap when the object has been created and no key
  occurs twice in it, as in every keyed container of the language.
\<close>

definition is_Map :: "'w heap \<Rightarrow> ref \<Rightarrow> bool" where
  "is_Map h r = (allocated h r \<and> distinct (map fst (Map_objs h r)))"



text \<open>
  \<open>extends h s\<close>: the heap \<open>s\<close> is \<open>h\<close> with new objects and nothing else; every object
  of \<open>h\<close> is in \<open>s\<close> as it was.
\<close>

definition extends :: "'w heap \<Rightarrow> 'w heap \<Rightarrow> bool" where
  "extends h s =
     (next_ref h \<le> next_ref s \<and> Array_objs s = Array_objs h \<and>
      (\<forall>r. allocated h r \<longrightarrow>
           AxiosHeaders_objs s r = AxiosHeaders_objs h r \<and> Map_objs s r = Map_objs h r \<and>
           Api_objs s r = Api_objs h r))"

section \<open>The heap operations, field by field\<close>

text \<open>
  What each operation does to each component of the heap. The proofs about \<open>start\<close>
  use these equations and never unfold an operation into the heap record.
\<close>

lemma forEach_Nil: "forEach [] f s = s" by (simp add: forEach_def)
lemma forEach_Cons: "forEach (x # xs) f s = forEach xs f (f x s)" by (simp add: forEach_def)

lemma AxiosHeaders_new_sel:
  "fst (AxiosHeaders_new h) = next_ref h"
  "next_ref (snd (AxiosHeaders_new h)) = Suc (next_ref h)"
  "AxiosHeaders_objs (snd (AxiosHeaders_new h)) = (AxiosHeaders_objs h)(next_ref h := [])"
  "Map_objs (snd (AxiosHeaders_new h)) = Map_objs h"
  "Array_objs (snd (AxiosHeaders_new h)) = Array_objs h"
  "Api_objs (snd (AxiosHeaders_new h)) = Api_objs h"
  by (simp_all add: AxiosHeaders_new_def new_object_def)

lemma Map_new_sel:
  "fst (Map_new h) = next_ref h"
  "next_ref (snd (Map_new h)) = Suc (next_ref h)"
  "AxiosHeaders_objs (snd (Map_new h)) = AxiosHeaders_objs h"
  "Map_objs (snd (Map_new h)) = (Map_objs h)(next_ref h := [])"
  "Array_objs (snd (Map_new h)) = Array_objs h"
  "Api_objs (snd (Map_new h)) = Api_objs h"
  by (simp_all add: Map_new_def new_object_def)

lemma Array_new_sel:
  "fst (Array_new h) = next_ref h"
  "next_ref (snd (Array_new h)) = Suc (next_ref h)"
  "AxiosHeaders_objs (snd (Array_new h)) = AxiosHeaders_objs h"
  "Map_objs (snd (Array_new h)) = Map_objs h"
  "Array_objs (snd (Array_new h)) = (Array_objs h)(next_ref h := [])"
  "Api_objs (snd (Array_new h)) = Api_objs h"
  by (simp_all add: Array_new_def new_object_def)

lemma AxiosHeaders_concat_sel:
  "fst (AxiosHeaders_concat r t h) = next_ref h"
  "next_ref (snd (AxiosHeaders_concat r t h)) = Suc (next_ref h)"
  "AxiosHeaders_objs (snd (AxiosHeaders_concat r t h)) =
     (AxiosHeaders_objs h)(next_ref h :=
        setHeaders (AxiosHeaders_objs h t) (setHeaders (AxiosHeaders_objs h r) []))"
  "Map_objs (snd (AxiosHeaders_concat r t h)) = Map_objs h"
  "Array_objs (snd (AxiosHeaders_concat r t h)) = Array_objs h"
  "Api_objs (snd (AxiosHeaders_concat r t h)) = Api_objs h"
  by (simp_all add: AxiosHeaders_concat_def new_object_def Let_def)

lemma Api_assign_sel:
  "next_ref (Api_assign r f h) = next_ref h"
  "AxiosHeaders_objs (Api_assign r f h) = AxiosHeaders_objs h"
  "Map_objs (Api_assign r f h) = Map_objs h"
  "Array_objs (Api_assign r f h) = Array_objs h"
  "Api_objs (Api_assign r f h) = (Api_objs h)(r := f (Api_objs h r))"
  by (simp_all add: Api_assign_def)

lemma Map_set_sel:
  "next_ref (Map_set r k v h) = next_ref h"
  "AxiosHeaders_objs (Map_set r k v h) = AxiosHeaders_objs h"
  "Map_objs (Map_set r k v h) = (Map_objs h)(r := upsert k v (Map_objs h r))"
  "Array_objs (Map_set r k v h) = Array_objs h"
  "Api_objs (Map_set r k v h) = Api_objs h"
  by (simp_all add: Map_set_def)

lemma forEach_Map_set:
  "forEach entries (\<lambda>(key, val) s. Map_set r key val s) h =
     h\<lparr>Map_objs := (Map_objs h)(r := set_all entries (Map_objs h r))\<rparr>"
proof (induction entries arbitrary: h)
  case Nil
  show ?case by (simp add: forEach_def set_all_def)
next
  case (Cons e es)
  obtain k v where e: "e = (k, v)" by (cases e)
  have step: "forEach (e # es) (\<lambda>(key, val) s. Map_set r key val s) h =
              forEach es (\<lambda>(key, val) s. Map_set r key val s) (Map_set r k v h)"
    by (simp add: forEach_def e)
  show ?case
    unfolding step Cons.IH
    by (cases h) (simp add: Map_set_def set_all_def e fun_eq_iff)
qed

lemma forEach_Map_set_sel:
  "next_ref (forEach entries (\<lambda>(key, val) s. Map_set r key val s) h) = next_ref h"
  "AxiosHeaders_objs (forEach entries (\<lambda>(key, val) s. Map_set r key val s) h) = AxiosHeaders_objs h"
  "Map_objs (forEach entries (\<lambda>(key, val) s. Map_set r key val s) h) =
     (Map_objs h)(r := set_all entries (Map_objs h r))"
  "Array_objs (forEach entries (\<lambda>(key, val) s. Map_set r key val s) h) = Array_objs h"
  "Api_objs (forEach entries (\<lambda>(key, val) s. Map_set r key val s) h) = Api_objs h"
  by (simp_all add: forEach_Map_set)

lemma forEach_Map_set_sel':
  "next_ref (forEach entries (\<lambda>p. Map_set r (fst p) (snd p)) h) = next_ref h"
  "AxiosHeaders_objs (forEach entries (\<lambda>p. Map_set r (fst p) (snd p)) h) = AxiosHeaders_objs h"
  "Map_objs (forEach entries (\<lambda>p. Map_set r (fst p) (snd p)) h) =
     (Map_objs h)(r := set_all entries (Map_objs h r))"
  "Array_objs (forEach entries (\<lambda>p. Map_set r (fst p) (snd p)) h) = Array_objs h"
  "Api_objs (forEach entries (\<lambda>p. Map_set r (fst p) (snd p)) h) = Api_objs h"
  using forEach_Map_set_sel[of entries r h] by (simp_all add: split_def)

lemma clone_eq:
  "clone api h =
     (next_ref h,
      h\<lparr>next_ref := Suc (next_ref h),
        Api_objs := (Api_objs h)(next_ref h :=
           \<lparr>IUnit.name = IUnit.name (Api_objs h api),
            IUnit.description = IUnit.description (Api_objs h api),
            IUnit.path = IUnit.path (Api_objs h api),
            IUnit.headers = IUnit.headers (Api_objs h api),
            IUnit.querys = IUnit.querys (Api_objs h api),
            IUnit.success_callbacks = IUnit.success_callbacks (Api_objs h api),
            IUnit.fail_callbacks = IUnit.fail_callbacks (Api_objs h api),
            IUnit.error_callback = IUnit.error_callback (Api_objs h api),
            Api.data = js_or (Api.data (Api_objs h api)) (JObj []),
            Api.method' = Api.method' (Api_objs h api),
            Api.verify = Api.verify (Api_objs h api)\<rparr>)\<rparr>)"
  by (simp add: clone_def Api_new_def new_object_def or_new_def or_default_def or_string_def or_data_def Let_def)

lemma clone_sel:
  "fst (clone api h) = next_ref h"
  "next_ref (snd (clone api h)) = Suc (next_ref h)"
  "AxiosHeaders_objs (snd (clone api h)) = AxiosHeaders_objs h"
  "Map_objs (snd (clone api h)) = Map_objs h"
  "Array_objs (snd (clone api h)) = Array_objs h"
  by (simp_all add: clone_eq)

lemma clone_Api_objs:
  "Api_objs (snd (clone api h)) =
     (Api_objs h)(next_ref h :=
           \<lparr>IUnit.name = IUnit.name (Api_objs h api),
            IUnit.description = IUnit.description (Api_objs h api),
            IUnit.path = IUnit.path (Api_objs h api),
            IUnit.headers = IUnit.headers (Api_objs h api),
            IUnit.querys = IUnit.querys (Api_objs h api),
            IUnit.success_callbacks = IUnit.success_callbacks (Api_objs h api),
            IUnit.fail_callbacks = IUnit.fail_callbacks (Api_objs h api),
            IUnit.error_callback = IUnit.error_callback (Api_objs h api),
            Api.data = js_or (Api.data (Api_objs h api)) (JObj []),
            Api.method' = Api.method' (Api_objs h api),
            Api.verify = Api.verify (Api_objs h api)\<rparr>)"
  by (simp add: clone_eq)

lemma clone_same:
  "truthy (Api.data (Api_objs h api)) \<Longrightarrow>
   clone api h = (next_ref h, h\<lparr>next_ref := Suc (next_ref h), Api_objs := (Api_objs h)(next_ref h := Api_objs h api)\<rparr>)"
  unfolding clone_eq by (cases "Api_objs h api") (simp add: js_or_def)

lemmas heap_sel =
  AxiosHeaders_new_sel Map_new_sel Array_new_sel AxiosHeaders_concat_sel Api_assign_sel
  forEach_Map_set_sel forEach_Map_set_sel' clone_sel clone_Api_objs

lemmas start_api_unfold =
  start_api_def split_def Let_def levels_def IUnit.truncate_def forEach_Nil forEach_Cons
  HTTPClient_do_def

section \<open>One dispatch\<close>

text \<open>
  The promise \<open>start_api\<close> returns and the heap it leaves: the clone, the header
  object and the query map are the next three objects of the heap, and the four values
  of \<open>concat\<close> the four after them.
\<close>

lemma start_api_pending:
  "fst (start_api this webSite module api h) =
     \<lparr>p_request =
        \<lparr>AxiosRequestConfig.method' = Api.method' (Api_objs h api),
         AxiosRequestConfig.url =
           IUnit.path this @ IUnit.path webSite @ IUnit.path module @ IUnit.path (Api_objs h api),
         AxiosRequestConfig.headers = Suc (next_ref h),
         AxiosRequestConfig.params = Suc (Suc (next_ref h)),
         AxiosRequestConfig.data = js_or (Api.data (Api_objs h api)) (JObj [])\<rparr>,
      p_engine = this, p_webSite = webSite, p_module = module, p_api = api\<rparr>"
  by (simp add: start_api_unfold heap_sel)

lemma start_api_levels:
  "p_engine (fst (start_api this webSite module api s)) = this"
  "p_webSite (fst (start_api this webSite module api s)) = webSite"
  "p_module (fst (start_api this webSite module api s)) = module"
  "p_api (fst (start_api this webSite module api s)) = api"
  by (simp_all add: start_api_pending)

lemma start_api_next: "next_ref (snd (start_api this webSite module api h)) = next_ref h + 7"
  by (simp add: start_api_unfold heap_sel)

lemma start_api_Array: "Array_objs (snd (start_api this webSite module api h)) = Array_objs h"
  by (simp add: start_api_unfold heap_sel)

lemma start_api_frame:
  assumes "r < next_ref h"
  shows "AxiosHeaders_objs (snd (start_api this webSite module api h)) r = AxiosHeaders_objs h r"
    and "Map_objs (snd (start_api this webSite module api h)) r = Map_objs h r"
    and "Api_objs (snd (start_api this webSite module api h)) r = Api_objs h r"
  using assms by (simp_all add: start_api_unfold heap_sel)

lemma start_api_header_obj:
  "AxiosHeaders_objs (snd (start_api this webSite module api h)) (Suc (next_ref h)) = []"
  by (simp add: start_api_unfold heap_sel)

lemma start_api_params_obj:
  assumes "api < next_ref h" "IUnit.querys this < next_ref h" "IUnit.querys webSite < next_ref h"
     "IUnit.querys module < next_ref h" "IUnit.querys (Api_objs h api) < next_ref h"
  shows "Map_objs (snd (start_api this webSite module api h)) (Suc (Suc (next_ref h))) =
      set_all (Map_objs h (IUnit.querys (Api_objs h api)))
       (set_all (Map_objs h (IUnit.querys module))
         (set_all (Map_objs h (IUnit.querys webSite))
           (set_all (Map_objs h (IUnit.querys this)) [])))"
  using assms by (simp add: start_api_unfold heap_sel)

lemma map_of_upsert: "map_of (upsert k v xs) = (map_of xs)(k \<mapsto> v)"
  by (induction xs) (auto simp: fun_eq_iff)

lemma map_of_set_all:
  "distinct (map fst es) \<Longrightarrow> map_of (set_all es acc) = map_of acc ++ map_of es"
proof (induction es arbitrary: acc)
  case Nil
  show ?case by (simp add: set_all_def)
next
  case (Cons e es)
  obtain k v where e: "e = (k, v)" by (cases e)
  from Cons.prems have k: "k \<notin> fst ` set es" and d: "distinct (map fst es)"
    by (auto simp: e)
  have "set_all (e # es) acc = set_all es (upsert k v acc)"
    by (simp add: set_all_def e)
  then have "map_of (set_all (e # es) acc) = map_of (upsert k v acc) ++ map_of es"
    by (simp only: Cons.IH[OF d])
  also have "\<dots> = (map_of acc)(k \<mapsto> v) ++ map_of es"
    by (simp only: map_of_upsert)
  also have "\<dots> = map_of acc ++ map_of (e # es)"
  proof -
    have kn: "map_of es k = None"
      using k by (simp add: map_of_eq_None_iff)
    show ?thesis
      using kn by (auto simp: e fun_eq_iff map_add_def split: option.splits)
  qed
  finally show ?case .
qed






lemma start_api_header_at:
  "r = Suc (next_ref h) \<Longrightarrow>
     AxiosHeaders_objs (snd (start_api this webSite module api h)) r = []"
  by (simp add: start_api_header_obj)

lemma dispatched_headers_empty:
  "AxiosHeaders_objs (snd (start_api this webSite module api h))
      (AxiosRequestConfig.headers (p_request (fst (start_api this webSite module api h)))) = []"
  by (simp add: start_api_pending start_api_header_obj)

lemmas header_unfold =
  trim_def whitespace_def isValidHeaderName_def token_chars_def normalizeHeader_def
  toLowerCase_def upper_case_def lower_case_def findKey_def assign_property_def store_header_def
  setHeader_def AxiosHeaders_set_def addHeader_def

lemma addHeader_H_new:
  "AxiosHeaders_objs h (IUnit.headers this) = [] \<Longrightarrow>
   addHeader this ''H'' val h =
     Returns (h\<lparr>AxiosHeaders_objs := (AxiosHeaders_objs h)(IUnit.headers this := [(''H'', val)])\<rparr>)"
  by (simp add: header_unfold)

lemmas ctor_unfold =
  TestEngine_new_def WebSite_new_def Module_new_def Api_new_def or_new_def or_default_def
  or_string_def or_data_def split_def Let_def addQuery_def
  Map_set_def AxiosHeaders_new_def Map_new_def Array_new_def new_object_def empty_heap_def
  js_or_def

section \<open>What \<open>start\<close> leaves untouched\<close>

text \<open>\<open>clone\<close>, one dispatch and the whole of \<open>start\<close> create objects and change none that was there.\<close>

lemma extends_refl: "extends h h"
  by (simp add: extends_def)

lemma extends_trans: "extends h s \<Longrightarrow> extends s s' \<Longrightarrow> extends h s'"
  by (auto simp: extends_def allocated_def)

lemma extends_start_api: "extends h (snd (start_api this webSite module api h))"
  by (simp add: extends_def allocated_def start_api_next start_api_Array start_api_frame)

lemma forEach_invariant:
  assumes "\<And>x acc. P acc \<Longrightarrow> P (f x acc)" and "P acc"
  shows "P (forEach xs f acc)"
  using assms(2) by (induction xs arbitrary: acc) (simp_all add: forEach_Nil forEach_Cons assms(1))

lemma extends_start: "extends h (snd (start this h))"
proof -
  let ?P = "\<lambda>acc :: 'a pending list \<times> 'a heap. extends h (snd acc)"
  have step: "?P (case start_api this webSite module api (snd acc) of (p, s') \<Rightarrow> (fst acc @ [p], s'))"
    if "?P acc" for webSite module api acc
    using that extends_trans[OF _ extends_start_api[of "snd acc" this webSite module api]]
    by (simp add: split_def)
  have apis: "?P (forEach as (\<lambda>api (ps, s). case start_api this webSite module api s of
                                   (p, s') \<Rightarrow> (ps @ [p], s')) acc)"
    if "?P acc" for webSite module as acc
    by (rule forEach_invariant[where P = ?P, OF _ that]) (use step in \<open>simp add: split_def\<close>)
  have mods: "?P (forEach ms (\<lambda>module. forEach (Module.apis module)
                 (\<lambda>api (ps, s). case start_api this webSite module api s of
                                   (p, s') \<Rightarrow> (ps @ [p], s'))) acc)"
    if "?P acc" for webSite ms acc
    by (rule forEach_invariant[where P = ?P, OF _ that]) (rule apis)
  have sites: "?P (forEach ws (\<lambda>webSite. forEach (WebSite.modules webSite)
             (\<lambda>module. forEach (Module.apis module)
                 (\<lambda>api (ps, s). case start_api this webSite module api s of
                                   (p, s') \<Rightarrow> (ps @ [p], s')))) acc)"
    if "?P acc" for ws acc
    by (rule forEach_invariant[where P = ?P, OF _ that]) (rule mods)
  show ?thesis
    unfolding start_def using sites[of "([], h)"] by (simp add: extends_refl)
qed

lemma extends_clone: "extends h (snd (clone api h))"
  by (simp add: extends_def allocated_def clone_sel clone_Api_objs)

section \<open>Every Endpoint is dispatched once\<close>

text \<open>
  \<open>start\<close> runs the loop body once for every Endpoint of every Module of every Site, in
  the order of the arrays, and every promise it returns is the promise of the loop body
  for the levels it closes over, run in a heap that extends the heap \<open>start\<close> was
  called in. What is proved of one dispatch, for every heap, is therefore proved of each
  dispatch of \<open>start\<close>.
\<close>

lemma forEach_invariant_in:
  assumes "\<And>x acc. x \<in> set xs \<Longrightarrow> P acc \<Longrightarrow> P (f x acc)" and "P acc"
  shows "P (forEach xs f acc)"
  using assms by (induction xs arbitrary: acc) (simp_all add: forEach_Nil forEach_Cons)

lemma start_dispatches:
  "\<forall>p \<in> set (fst (start this h)).
     p_webSite p \<in> set (TestEngine.webSites this) \<and>
     p_module p \<in> set (WebSite.modules (p_webSite p)) \<and>
     p_api p \<in> set (Module.apis (p_module p)) \<and>
     (\<exists>s. extends h s \<and> p = fst (start_api this (p_webSite p) (p_module p) (p_api p) s))"
proof -
  define D where "D = (\<lambda>p. p_webSite p \<in> set (TestEngine.webSites this) \<and>
     p_module p \<in> set (WebSite.modules (p_webSite p)) \<and>
     p_api p \<in> set (Module.apis (p_module p)) \<and>
     (\<exists>s. extends h s \<and> p = fst (start_api this (p_webSite p) (p_module p) (p_api p) s)))"
  define P where "P = (\<lambda>acc :: 'a pending list \<times> 'a heap.
              extends h (snd acc) \<and> (\<forall>p \<in> set (fst acc). D p))"
  have step: "P ((\<lambda>(ps, s). case start_api this webSite module api s of
                               (p, s') \<Rightarrow> (ps @ [p], s')) acc)"
    if "webSite \<in> set (TestEngine.webSites this)" "module \<in> set (WebSite.modules webSite)"
       "api \<in> set (Module.apis module)" "P acc" for webSite module api acc
  proof -
    obtain ps s where acc: "acc = (ps, s)" by (cases acc)
    let ?p = "fst (start_api this webSite module api s)"
    let ?s' = "snd (start_api this webSite module api s)"
    have hs: "extends h s" and old: "\<forall>p \<in> set ps. D p"
      using that(4) by (simp_all add: P_def acc)
    have e: "extends h ?s'"
      using hs extends_start_api by (rule extends_trans)
    have "\<exists>s'. extends h s' \<and> ?p = fst (start_api this webSite module api s')"
      using hs by blast
    then have d: "D ?p"
      unfolding D_def start_api_levels using that(1,2,3) by simp
    have "P (ps @ [?p], ?s')"
      using e old d by (simp add: P_def)
    then show ?thesis
      by (simp add: acc split_def)
  qed
  have apis: "P (forEach (Module.apis module) (\<lambda>api (ps, s). case start_api this webSite module api s of
                                   (p, s') \<Rightarrow> (ps @ [p], s')) acc)"
    if "webSite \<in> set (TestEngine.webSites this)" "module \<in> set (WebSite.modules webSite)" "P acc"
    for webSite module acc
    using that(3) by (intro forEach_invariant_in[where P = P] step that(1,2))
  have mods: "P (forEach (WebSite.modules webSite) (\<lambda>module. forEach (Module.apis module)
                 (\<lambda>api (ps, s). case start_api this webSite module api s of
                                   (p, s') \<Rightarrow> (ps @ [p], s'))) acc)"
    if "webSite \<in> set (TestEngine.webSites this)" "P acc" for webSite acc
    using that(2) by (intro forEach_invariant_in[where P = P] apis that(1))
  have sites: "P (forEach (TestEngine.webSites this) (\<lambda>webSite. forEach (WebSite.modules webSite)
             (\<lambda>module. forEach (Module.apis module)
                 (\<lambda>api (ps, s). case start_api this webSite module api s of
                                   (p, s') \<Rightarrow> (ps @ [p], s')))) ([], h))"
    by (intro forEach_invariant_in[where P = P] mods) (simp_all add: P_def extends_refl)
  then have "\<forall>p \<in> set (fst (start this h)). D p"
    by (simp add: P_def start_def)
  then show ?thesis
    by (simp add: D_def)
qed

lemma start_apis_order:
  "map (\<lambda>p. (p_webSite p, p_module p, p_api p))
     (fst (forEach xs (\<lambda>api (ps, s). case start_api this webSite module api s of
                                   (p, s') \<Rightarrow> (ps @ [p], s')) acc)) =
   map (\<lambda>p. (p_webSite p, p_module p, p_api p)) (fst acc) @ map (\<lambda>api. (webSite, module, api)) xs"
  by (induction xs arbitrary: acc)
     (simp_all add: forEach_Nil forEach_Cons split_def start_api_pending)

lemma start_modules_order:
  "map (\<lambda>p. (p_webSite p, p_module p, p_api p))
     (fst (forEach ms (\<lambda>module. forEach (Module.apis module)
             (\<lambda>api (ps, s). case start_api this webSite module api s of
                                   (p, s') \<Rightarrow> (ps @ [p], s'))) acc)) =
   map (\<lambda>p. (p_webSite p, p_module p, p_api p)) (fst acc) @
   concat (map (\<lambda>module. map (\<lambda>api. (webSite, module, api)) (Module.apis module)) ms)"
  by (induction ms arbitrary: acc)
     (simp_all add: forEach_Nil forEach_Cons start_apis_order)

lemma start_order:
  "map (\<lambda>p. (p_webSite p, p_module p, p_api p)) (fst (start this h)) =
   concat (map (\<lambda>webSite. concat (map (\<lambda>module. map (\<lambda>api. (webSite, module, api))
     (Module.apis module)) (WebSite.modules webSite))) (TestEngine.webSites this))"
proof -
  have "map (\<lambda>p. (p_webSite p, p_module p, p_api p))
     (fst (forEach ws (\<lambda>webSite. forEach (WebSite.modules webSite) (\<lambda>module. forEach (Module.apis module)
             (\<lambda>api (ps, s). case start_api this webSite module api s of
                                   (p, s') \<Rightarrow> (ps @ [p], s')))) acc)) =
   map (\<lambda>p. (p_webSite p, p_module p, p_api p)) (fst acc) @
   concat (map (\<lambda>webSite. concat (map (\<lambda>module. map (\<lambda>api. (webSite, module, api))
     (Module.apis module)) (WebSite.modules webSite))) ws)" for ws acc
    by (induction ws arbitrary: acc)
       (simp_all add: forEach_Nil forEach_Cons start_modules_order)
  from this[of "TestEngine.webSites this" "([], h)"] show ?thesis
    by (simp add: start_def)
qed

section \<open>Constructors, option by option\<close>

text \<open>
  What each constructor makes of each option of its configuration: a given container
  is used as it is, an omitted one is a new empty object; an omitted or empty name is
  the default name; an omitted function is the default function. The body of an
  \<open>Api\<close> is never falsy.
\<close>

lemma Api_new_data_truthy:
  "truthy (Api.data (Api_objs (snd (Api_new c h)) (fst (Api_new c h))))"
  by (cases "Api_config.data c")
     (simp_all add: Api_new_def new_object_def or_data_def js_or_def split_def Let_def)

lemma TestEngine_new_plain_options:
  "IUnit.name (fst (TestEngine_new c h)) = (case TestEngine_config.name c of None \<Rightarrow> ''TestEngine'' | Some s \<Rightarrow> if s = [] then ''TestEngine'' else s)"
  "IUnit.description (fst (TestEngine_new c h)) =
     (case TestEngine_config.description c of None \<Rightarrow> ''TestEngine'' | Some s \<Rightarrow> if s = [] then ''TestEngine'' else s)"
  "IUnit.error_callback (fst (TestEngine_new c h)) =
     (case TestEngine_config.error_callback c of None \<Rightarrow> (\<lambda>_ w. (Inr JUndefined, w)) | Some f \<Rightarrow> f)"
  "TestEngine.webSites (fst (TestEngine_new c h)) = (case TestEngine_config.webSites c of None \<Rightarrow> [] | Some xs \<Rightarrow> xs)"
  by (simp_all add: TestEngine_new_def or_default_def or_string_def noop_def split_def Let_def
      split: option.splits)

lemma TestEngine_new_container_options:
  "case TestEngine_config.headers c of
     Some r \<Rightarrow> IUnit.headers (fst (TestEngine_new c h)) = r
   | None \<Rightarrow> \<not> allocated h (IUnit.headers (fst (TestEngine_new c h))) \<and>
             AxiosHeaders_objs (snd (TestEngine_new c h)) (IUnit.headers (fst (TestEngine_new c h))) = []"
  "case TestEngine_config.querys c of
     Some r \<Rightarrow> IUnit.querys (fst (TestEngine_new c h)) = r
   | None \<Rightarrow> \<not> allocated h (IUnit.querys (fst (TestEngine_new c h))) \<and>
             Map_objs (snd (TestEngine_new c h)) (IUnit.querys (fst (TestEngine_new c h))) = []"
  "case TestEngine_config.success_callbacks c of
     Some r \<Rightarrow> IUnit.success_callbacks (fst (TestEngine_new c h)) = r
   | None \<Rightarrow> \<not> allocated h (IUnit.success_callbacks (fst (TestEngine_new c h))) \<and>
             Array_objs (snd (TestEngine_new c h)) (IUnit.success_callbacks (fst (TestEngine_new c h))) = []"
  "case TestEngine_config.fail_callbacks c of
     Some r \<Rightarrow> IUnit.fail_callbacks (fst (TestEngine_new c h)) = r
   | None \<Rightarrow> \<not> allocated h (IUnit.fail_callbacks (fst (TestEngine_new c h))) \<and>
             Array_objs (snd (TestEngine_new c h)) (IUnit.fail_callbacks (fst (TestEngine_new c h))) = []"
  by (simp_all add: TestEngine_new_def or_new_def split_def Let_def AxiosHeaders_new_def Map_new_def
      Array_new_def new_object_def allocated_def split: option.splits)

lemma WebSite_new_plain_options:
  "IUnit.name (fst (WebSite_new c h)) = (case WebSite_config.name c of None \<Rightarrow> [] | Some s \<Rightarrow> if s = [] then [] else s)"
  "IUnit.description (fst (WebSite_new c h)) =
     (case WebSite_config.description c of None \<Rightarrow> [] | Some s \<Rightarrow> if s = [] then [] else s)"
  "IUnit.error_callback (fst (WebSite_new c h)) =
     (case WebSite_config.error_callback c of None \<Rightarrow> (\<lambda>_ w. (Inr JUndefined, w)) | Some f \<Rightarrow> f)"
  "WebSite.modules (fst (WebSite_new c h)) = (case WebSite_config.modules c of None \<Rightarrow> [] | Some xs \<Rightarrow> xs)"
  by (simp_all add: WebSite_new_def or_default_def or_string_def noop_def split_def Let_def
      split: option.splits)

lemma WebSite_new_container_options:
  "case WebSite_config.headers c of
     Some r \<Rightarrow> IUnit.headers (fst (WebSite_new c h)) = r
   | None \<Rightarrow> \<not> allocated h (IUnit.headers (fst (WebSite_new c h))) \<and>
             AxiosHeaders_objs (snd (WebSite_new c h)) (IUnit.headers (fst (WebSite_new c h))) = []"
  "case WebSite_config.querys c of
     Some r \<Rightarrow> IUnit.querys (fst (WebSite_new c h)) = r
   | None \<Rightarrow> \<not> allocated h (IUnit.querys (fst (WebSite_new c h))) \<and>
             Map_objs (snd (WebSite_new c h)) (IUnit.querys (fst (WebSite_new c h))) = []"
  "case WebSite_config.success_callbacks c of
     Some r \<Rightarrow> IUnit.success_callbacks (fst (WebSite_new c h)) = r
   | None \<Rightarrow> \<not> allocated h (IUnit.success_callbacks (fst (WebSite_new c h))) \<and>
             Array_objs (snd (WebSite_new c h)) (IUnit.success_callbacks (fst (WebSite_new c h))) = []"
  "case WebSite_config.fail_callbacks c of
     Some r \<Rightarrow> IUnit.fail_callbacks (fst (WebSite_new c h)) = r
   | None \<Rightarrow> \<not> allocated h (IUnit.fail_callbacks (fst (WebSite_new c h))) \<and>
             Array_objs (snd (WebSite_new c h)) (IUnit.fail_callbacks (fst (WebSite_new c h))) = []"
  by (simp_all add: WebSite_new_def or_new_def split_def Let_def AxiosHeaders_new_def Map_new_def
      Array_new_def new_object_def allocated_def split: option.splits)

lemma Module_new_plain_options:
  "IUnit.name (fst (Module_new c h)) = (case Module_config.name c of None \<Rightarrow> [] | Some s \<Rightarrow> if s = [] then [] else s)"
  "IUnit.description (fst (Module_new c h)) =
     (case Module_config.description c of None \<Rightarrow> [] | Some s \<Rightarrow> if s = [] then [] else s)"
  "IUnit.error_callback (fst (Module_new c h)) =
     (case Module_config.error_callback c of None \<Rightarrow> (\<lambda>_ w. (Inr JUndefined, w)) | Some f \<Rightarrow> f)"
  "Module.apis (fst (Module_new c h)) = (case Module_config.apis c of None \<Rightarrow> [] | Some xs \<Rightarrow> xs)"
  by (simp_all add: Module_new_def or_default_def or_string_def noop_def split_def Let_def
      split: option.splits)

lemma Module_new_container_options:
  "case Module_config.headers c of
     Some r \<Rightarrow> IUnit.headers (fst (Module_new c h)) = r
   | None \<Rightarrow> \<not> allocated h (IUnit.headers (fst (Module_new c h))) \<and>
             AxiosHeaders_objs (snd (Module_new c h)) (IUnit.headers (fst (Module_new c h))) = []"
  "case Module_config.querys c of
     Some r \<Rightarrow> IUnit.querys (fst (Module_new c h)) = r
   | None \<Rightarrow> \<not> allocated h (IUnit.querys (fst (Module_new c h))) \<and>
             Map_objs (snd (Module_new c h)) (IUnit.querys (fst (Module_new c h))) = []"
  "case Module_config.success_callbacks c of
     Some r \<Rightarrow> IUnit.success_callbacks (fst (Module_new c h)) = r
   | None \<Rightarrow> \<not> allocated h (IUnit.success_callbacks (fst (Module_new c h))) \<and>
             Array_objs (snd (Module_new c h)) (IUnit.success_callbacks (fst (Module_new c h))) = []"
  "case Module_config.fail_callbacks c of
     Some r \<Rightarrow> IUnit.fail_callbacks (fst (Module_new c h)) = r
   | None \<Rightarrow> \<not> allocated h (IUnit.fail_callbacks (fst (Module_new c h))) \<and>
             Array_objs (snd (Module_new c h)) (IUnit.fail_callbacks (fst (Module_new c h))) = []"
  by (simp_all add: Module_new_def or_new_def split_def Let_def AxiosHeaders_new_def Map_new_def
      Array_new_def new_object_def allocated_def split: option.splits)

lemma Api_new_plain_options:
  "IUnit.name (Api_objs (snd (Api_new c h)) (fst (Api_new c h))) = (case Api_config.name c of None \<Rightarrow> [] | Some s \<Rightarrow> if s = [] then [] else s)"
  "IUnit.description (Api_objs (snd (Api_new c h)) (fst (Api_new c h))) =
     (case Api_config.description c of None \<Rightarrow> [] | Some s \<Rightarrow> if s = [] then [] else s)"
  "IUnit.error_callback (Api_objs (snd (Api_new c h)) (fst (Api_new c h))) =
     (case Api_config.error_callback c of None \<Rightarrow> (\<lambda>_ w. (Inr JUndefined, w)) | Some f \<Rightarrow> f)"
  "Api.verify (Api_objs (snd (Api_new c h)) (fst (Api_new c h))) =
     (case Api_config.verify c of None \<Rightarrow> (\<lambda>r w. (Inr (status r = 200), w)) | Some f \<Rightarrow> f)"
  "Api.data (Api_objs (snd (Api_new c h)) (fst (Api_new c h))) =
     (case Api_config.data c of None \<Rightarrow> JObj [] | Some v \<Rightarrow> if truthy v then v else JObj [])"
  by (simp_all add: Api_new_def or_default_def or_string_def or_data_def js_or_def noop_def
      status_is_200_def new_object_def split_def Let_def split: option.splits)

lemma Api_new_container_options:
  "case Api_config.headers c of
     Some r \<Rightarrow> IUnit.headers (Api_objs (snd (Api_new c h)) (fst (Api_new c h))) = r
   | None \<Rightarrow> \<not> allocated h (IUnit.headers (Api_objs (snd (Api_new c h)) (fst (Api_new c h)))) \<and>
             AxiosHeaders_objs (snd (Api_new c h)) (IUnit.headers (Api_objs (snd (Api_new c h)) (fst (Api_new c h)))) = []"
  "case Api_config.querys c of
     Some r \<Rightarrow> IUnit.querys (Api_objs (snd (Api_new c h)) (fst (Api_new c h))) = r
   | None \<Rightarrow> \<not> allocated h (IUnit.querys (Api_objs (snd (Api_new c h)) (fst (Api_new c h)))) \<and>
             Map_objs (snd (Api_new c h)) (IUnit.querys (Api_objs (snd (Api_new c h)) (fst (Api_new c h)))) = []"
  "case Api_config.success_callbacks c of
     Some r \<Rightarrow> IUnit.success_callbacks (Api_objs (snd (Api_new c h)) (fst (Api_new c h))) = r
   | None \<Rightarrow> \<not> allocated h (IUnit.success_callbacks (Api_objs (snd (Api_new c h)) (fst (Api_new c h)))) \<and>
             Array_objs (snd (Api_new c h)) (IUnit.success_callbacks (Api_objs (snd (Api_new c h)) (fst (Api_new c h)))) = []"
  "case Api_config.fail_callbacks c of
     Some r \<Rightarrow> IUnit.fail_callbacks (Api_objs (snd (Api_new c h)) (fst (Api_new c h))) = r
   | None \<Rightarrow> \<not> allocated h (IUnit.fail_callbacks (Api_objs (snd (Api_new c h)) (fst (Api_new c h)))) \<and>
             Array_objs (snd (Api_new c h)) (IUnit.fail_callbacks (Api_objs (snd (Api_new c h)) (fst (Api_new c h)))) = []"
  by (simp_all add: Api_new_def or_new_def split_def Let_def AxiosHeaders_new_def Map_new_def
      Array_new_def new_object_def allocated_def split: option.splits)

lemma start_two_sites:
  assumes "TestEngine.webSites this = [site1, site2]"
      and "WebSite.modules site1 = [module1]" and "Module.apis module1 = [api1]"
      and "WebSite.modules site2 = [module2]" and "Module.apis module2 = [api2]"
  shows "start this h =
     ([fst (start_api this site1 module1 api1 h),
       fst (start_api this site2 module2 api2 (snd (start_api this site1 module1 api1 h)))],
      snd (start_api this site2 module2 api2 (snd (start_api this site1 module1 api1 h))))"
  by (simp add: start_def assms forEach_Cons forEach_Nil split_def)

section \<open>Claims about the merged request\<close>

text \<open>
  C1 (header merge). The claim: the headers of a dispatched request are the Engine's,
  Site's, Module's and Endpoint's header maps applied in that order onto an empty set,
  so that an Engine header \<open>H = a\<close> and an Endpoint header \<open>H = b\<close> give \<open>H = b\<close>.
  The code calls \<open>header.concat(level.headers)\<close> for each level and drops the
  instance it returns, so \<open>header\<close> is still empty when it is assigned to the clone.
  Here the tree is built with the constructors, \<open>H = a\<close> is added to the Engine and
  \<open>H = b\<close> to the Endpoint, and \<open>start\<close> runs: both nodes keep their header, and the
  one request that is sent has no header at all.
\<close>

theorem header_merge_at_failing_input:
  "(let (engine, h1) = TestEngine_new \<lparr>TestEngine_config.headers = None,
                      TestEngine_config.querys = None, TestEngine_config.success_callbacks = None,
                      TestEngine_config.fail_callbacks = None, TestEngine_config.error_callback = None,
                      TestEngine_config.webSites = None, TestEngine_config.name = None,
                      TestEngine_config.description = None\<rparr> (empty_heap :: 'w heap)
    in case addHeader engine ''H'' ''a'' h1 of
         Returns h2 \<Rightarrow>
           (let (webSite, h3) = WebSite_new \<lparr>WebSite_config.path = ''/s'', WebSite_config.headers = None,
                      WebSite_config.querys = None, WebSite_config.success_callbacks = None,
                      WebSite_config.fail_callbacks = None, WebSite_config.error_callback = None,
                      WebSite_config.modules = None, WebSite_config.name = None,
                      WebSite_config.description = None\<rparr> h2;
                (module, h4) = Module_new \<lparr>Module_config.path = [], Module_config.headers = None,
                      Module_config.querys = None, Module_config.success_callbacks = None,
                      Module_config.fail_callbacks = None, Module_config.error_callback = None,
                      Module_config.apis = None, Module_config.name = None,
                      Module_config.description = None\<rparr> h3;
                (api, h5) = Api_new \<lparr>Api_config.path = ''/e'', Api_config.method' = GET,
                      Api_config.headers = None, Api_config.querys = None,
                      Api_config.success_callbacks = None, Api_config.fail_callbacks = None,
                      Api_config.error_callback = None, Api_config.verify = None,
                      Api_config.data = None, Api_config.name = None,
                      Api_config.description = None\<rparr> h4
            in case addHeader (Api_objs h5 api) ''H'' ''b'' h5 of
                 Returns h6 \<Rightarrow>
                   (let (ps, h7) =
                          start (addWebSites engine [addModules webSite [addApis module [api]]]) h6
                    in Some
                         (AxiosHeaders_objs h7 (IUnit.headers engine),
                          AxiosHeaders_objs h7 (IUnit.headers (Api_objs h7 api)),
                          map (\<lambda>p. (AxiosRequestConfig.url (p_request p),
                                     AxiosHeaders_objs h7 (AxiosRequestConfig.headers (p_request p)),
                                     map_of (AxiosHeaders_objs h7
                                               (AxiosRequestConfig.headers (p_request p))) ''H''))
                            ps))
               | _ \<Rightarrow> None)
       | _ \<Rightarrow> None)
   = Some ([(''H'', ''a'')], [(''H'', ''b'')], [(''/s/e'', [], None)])"
  by (simp add: ctor_unfold addHeader_H_new start_def forEach_Nil forEach_Cons addWebSites_def
      addModules_def addApis_def start_api_pending start_api_header_at start_api_frame)

text \<open>
  C6 (path merge). For every dispatch of an Endpoint the URL of the request is the
  Engine's, the Site's, the Module's and the Endpoint's path fragment, concatenated in
  that order with nothing in between and nothing normalised. The witness is the
  example of the specification: \<open>https://x\<close>, \<open>/s\<close>, the empty fragment and \<open>/e\<close>
  give \<open>https://x/s/e\<close>.
\<close>

theorem path_concatenation:
  "AxiosRequestConfig.url (p_request (fst (start_api this webSite module api h))) =
     IUnit.path this @ IUnit.path webSite @ IUnit.path module @ IUnit.path (Api_objs h api)"
  by (simp add: start_api_pending)

theorem path_concatenation_witness:
  "(let (api, h1) = Api_new \<lparr>Api_config.path = ''/e'', Api_config.method' = GET,
                      Api_config.headers = None, Api_config.querys = None,
                      Api_config.success_callbacks = None, Api_config.fail_callbacks = None,
                      Api_config.error_callback = None, Api_config.verify = None,
                      Api_config.data = None, Api_config.name = None,
                      Api_config.description = None\<rparr> (empty_heap :: unit heap);
        (module, h2) = Module_new \<lparr>Module_config.path = [], Module_config.headers = None,
                      Module_config.querys = None, Module_config.success_callbacks = None,
                      Module_config.fail_callbacks = None, Module_config.error_callback = None,
                      Module_config.apis = Some [api], Module_config.name = None,
                      Module_config.description = None\<rparr> h1;
        (webSite, h3) = WebSite_new \<lparr>WebSite_config.path = ''/s'', WebSite_config.headers = None,
                      WebSite_config.querys = None, WebSite_config.success_callbacks = None,
                      WebSite_config.fail_callbacks = None, WebSite_config.error_callback = None,
                      WebSite_config.modules = Some [module], WebSite_config.name = None,
                      WebSite_config.description = None\<rparr> h2;
        (engine, h4) = TestEngine_new \<lparr>TestEngine_config.headers = None,
                      TestEngine_config.querys = None, TestEngine_config.success_callbacks = None,
                      TestEngine_config.fail_callbacks = None, TestEngine_config.error_callback = None,
                      TestEngine_config.webSites = Some [webSite], TestEngine_config.name = None,
                      TestEngine_config.description = None\<rparr> h3;
        this = engine\<lparr>IUnit.path := ''https://x''\<rparr>
    in AxiosRequestConfig.url (p_request (fst (start_api this webSite module api h4))))
   = ''https://x/s/e''"
  by (simp add: path_concatenation ctor_unfold)

text \<open>
  C7 (query merge and body). For every dispatch of an Endpoint whose four levels hold
  query maps of the heap, the query map of the request is a new map that received the
  entries of the Engine's, the Site's, the Module's and the Endpoint's map in that
  order, each \<open>set\<close> overwriting the value of a key that is already there; read as a
  lookup table it is the Engine's table overridden by the Site's, then by the Module's,
  then by the Endpoint's. The body of the request is the body of the Endpoint (which
  the constructor made truthy).
\<close>

theorem query_merge:
  assumes api: "allocated h api" "truthy (Api.data (Api_objs h api))"
      and maps: "is_Map h (IUnit.querys this)" "is_Map h (IUnit.querys webSite)"
                "is_Map h (IUnit.querys module)" "is_Map h (IUnit.querys (Api_objs h api))"
  shows "Map_objs (snd (start_api this webSite module api h))
           (AxiosRequestConfig.params (p_request (fst (start_api this webSite module api h)))) =
         set_all (Map_objs h (IUnit.querys (Api_objs h api)))
           (set_all (Map_objs h (IUnit.querys module))
             (set_all (Map_objs h (IUnit.querys webSite))
               (set_all (Map_objs h (IUnit.querys this)) [])))
       \<and> map_of (Map_objs (snd (start_api this webSite module api h))
           (AxiosRequestConfig.params (p_request (fst (start_api this webSite module api h))))) =
         map_of (Map_objs h (IUnit.querys this)) ++ map_of (Map_objs h (IUnit.querys webSite)) ++
         map_of (Map_objs h (IUnit.querys module)) ++
         map_of (Map_objs h (IUnit.querys (Api_objs h api)))
       \<and> AxiosRequestConfig.data (p_request (fst (start_api this webSite module api h))) =
         Api.data (Api_objs h api)"
proof -
  have obj: "Map_objs (snd (start_api this webSite module api h))
           (AxiosRequestConfig.params (p_request (fst (start_api this webSite module api h)))) =
         set_all (Map_objs h (IUnit.querys (Api_objs h api)))
           (set_all (Map_objs h (IUnit.querys module))
             (set_all (Map_objs h (IUnit.querys webSite))
               (set_all (Map_objs h (IUnit.querys this)) [])))"
    using api maps start_api_params_obj[of api h this webSite module]
    by (simp add: start_api_pending is_Map_def allocated_def)
  have look: "map_of (set_all (Map_objs h (IUnit.querys (Api_objs h api)))
           (set_all (Map_objs h (IUnit.querys module))
             (set_all (Map_objs h (IUnit.querys webSite))
               (set_all (Map_objs h (IUnit.querys this)) [])))) =
         map_of (Map_objs h (IUnit.querys this)) ++ map_of (Map_objs h (IUnit.querys webSite)) ++
         map_of (Map_objs h (IUnit.querys module)) ++
         map_of (Map_objs h (IUnit.querys (Api_objs h api)))"
    using maps by (simp add: map_of_set_all is_Map_def)
  have body: "AxiosRequestConfig.data (p_request (fst (start_api this webSite module api h))) =
         Api.data (Api_objs h api)"
    using api by (simp add: start_api_pending js_or_def)
  show ?thesis
    using obj look body by simp
qed

theorem query_merge_witness:
  "(let h = (empty_heap :: unit heap)
             \<lparr>next_ref := 9,
              Map_objs := (\<lambda>_. [])(1 := [(''k'', ''e''), (''only'', ''1'')], 3 := [(''k'', ''s'')],
                                   7 := [(''k'', ''a''), (''z'', ''9'')]),
              Api_objs := (Api_objs empty_heap)(8 :=
                 \<lparr>IUnit.name = [], IUnit.description = [], IUnit.path = ''/e'',
                  IUnit.headers = 6, IUnit.querys = 7,
                  IUnit.success_callbacks = 0, IUnit.fail_callbacks = 0,
                  IUnit.error_callback = noop,
                  Api.data = JStr ''body'', Api.method' = POST, Api.verify = status_is_200\<rparr>)\<rparr>;
        this = \<lparr>IUnit.name = ''TestEngine'', IUnit.description = ''TestEngine'', IUnit.path = [],
                IUnit.headers = 0, IUnit.querys = 1,
                IUnit.success_callbacks = 0, IUnit.fail_callbacks = 0,
                IUnit.error_callback = noop, TestEngine.webSites = []\<rparr>;
        webSite = \<lparr>IUnit.name = [], IUnit.description = [], IUnit.path = ''/s'',
                IUnit.headers = 2, IUnit.querys = 3,
                IUnit.success_callbacks = 0, IUnit.fail_callbacks = 0,
                IUnit.error_callback = noop, WebSite.modules = []\<rparr>;
        module = \<lparr>IUnit.name = [], IUnit.description = [], IUnit.path = [],
                IUnit.headers = 4, IUnit.querys = 5,
                IUnit.success_callbacks = 0, IUnit.fail_callbacks = 0,
                IUnit.error_callback = noop, Module.apis = [8]\<rparr>;
        (p, h') = start_api this webSite module 8 h
    in allocated h 8 \<and> truthy (Api.data (Api_objs h 8)) \<and>
       is_Map h (IUnit.querys this) \<and> is_Map h (IUnit.querys webSite) \<and>
       is_Map h (IUnit.querys module) \<and> is_Map h (IUnit.querys (Api_objs h 8)) \<and>
       Map_objs h' (AxiosRequestConfig.params (p_request p)) =
         [(''k'', ''a''), (''only'', ''1''), (''z'', ''9'')] \<and>
       map_of (Map_objs h' (AxiosRequestConfig.params (p_request p))) ''k'' = Some ''a'' \<and>
       AxiosRequestConfig.data (p_request p) = JStr ''body'')"
  by (simp add: query_merge is_Map_def allocated_def set_all_def empty_heap_def split_def Let_def)

section \<open>Claims about the constructors\<close>

text \<open>
  C2 (constructor options), as the code has it. The constructors of \<open>WebSite\<close>,
  \<open>Module\<close> and \<open>Api\<close> take the path of the node from the required \<open>path\<close> of
  the configuration, and \<open>Api\<close> its method from the required \<open>method\<close>. The
  constructor of \<open>TestEngine\<close> has no \<open>path\<close> option: whatever it is given, the
  path of the Engine is the empty string. A configuration that gives nothing but the
  required options yields a node with a new empty header object, a new empty query map,
  new empty success and fail arrays, an error callback that does nothing, no children, the
  empty name and description (\<open>TestEngine\<close> for the Engine), and for an \<open>Api\<close> the body
  \<open>{}\<close> and a \<open>verify\<close> that tests the status against 200.
\<close>

theorem constructor_options:
  "IUnit.path (fst (TestEngine_new ce h)) = []
 \<and> IUnit.path (fst (WebSite_new cs h)) = WebSite_config.path cs
 \<and> IUnit.path (fst (Module_new cm h)) = Module_config.path cm
 \<and> IUnit.path (Api_objs (snd (Api_new ca h)) (fst (Api_new ca h))) = Api_config.path ca
 \<and> Api.method' (Api_objs (snd (Api_new ca h)) (fst (Api_new ca h))) = Api_config.method' ca
 \<and> TestEngine_new
       \<lparr>TestEngine_config.headers = None, TestEngine_config.querys = None,
        TestEngine_config.success_callbacks = None, TestEngine_config.fail_callbacks = None,
        TestEngine_config.error_callback = None, TestEngine_config.webSites = None,
        TestEngine_config.name = None, TestEngine_config.description = None\<rparr> h =
     (\<lparr>IUnit.name = ''TestEngine'', IUnit.description = ''TestEngine'', IUnit.path = [],
       IUnit.headers = next_ref h, IUnit.querys = next_ref h + 1,
       IUnit.success_callbacks = next_ref h + 2, IUnit.fail_callbacks = next_ref h + 3,
       IUnit.error_callback = (\<lambda>_ w. (Inr JUndefined, w)), TestEngine.webSites = []\<rparr>,
      h\<lparr>next_ref := next_ref h + 4,
        AxiosHeaders_objs := (AxiosHeaders_objs h)(next_ref h := []),
        Map_objs := (Map_objs h)(next_ref h + 1 := []),
        Array_objs := (Array_objs h)(next_ref h + 2 := [], next_ref h + 3 := [])\<rparr>)
 \<and> WebSite_new
       \<lparr>WebSite_config.path = ps, WebSite_config.headers = None, WebSite_config.querys = None,
        WebSite_config.success_callbacks = None, WebSite_config.fail_callbacks = None,
        WebSite_config.error_callback = None, WebSite_config.modules = None,
        WebSite_config.name = None, WebSite_config.description = None\<rparr> h =
     (\<lparr>IUnit.name = [], IUnit.description = [], IUnit.path = ps,
       IUnit.headers = next_ref h, IUnit.querys = next_ref h + 1,
       IUnit.success_callbacks = next_ref h + 2, IUnit.fail_callbacks = next_ref h + 3,
       IUnit.error_callback = (\<lambda>_ w. (Inr JUndefined, w)), WebSite.modules = []\<rparr>,
      h\<lparr>next_ref := next_ref h + 4,
        AxiosHeaders_objs := (AxiosHeaders_objs h)(next_ref h := []),
        Map_objs := (Map_objs h)(next_ref h + 1 := []),
        Array_objs := (Array_objs h)(next_ref h + 2 := [], next_ref h + 3 := [])\<rparr>)
 \<and> Module_new
       \<lparr>Module_config.path = pm, Module_config.headers = None, Module_config.querys = None,
        Module_config.success_callbacks = None, Module_config.fail_callbacks = None,
        Module_config.error_callback = None, Module_config.apis = None,
        Module_config.name = None, Module_config.description = None\<rparr> h =
     (\<lparr>IUnit.name = [], IUnit.description = [], IUnit.path = pm,
       IUnit.headers = next_ref h, IUnit.querys = next_ref h + 1,
       IUnit.success_callbacks = next_ref h + 2, IUnit.fail_callbacks = next_ref h + 3,
       IUnit.error_callback = (\<lambda>_ w. (Inr JUndefined, w)), Module.apis = []\<rparr>,
      h\<lparr>next_ref := next_ref h + 4,
        AxiosHeaders_objs := (AxiosHeaders_objs h)(next_ref h := []),
        Map_objs := (Map_objs h)(next_ref h + 1 := []),
        Array_objs := (Array_objs h)(next_ref h + 2 := [], next_ref h + 3 := [])\<rparr>)
 \<and> Api_new
       \<lparr>Api_config.path = pa, Api_config.method' = m,
        Api_config.headers = None, Api_config.querys = None,
        Api_config.success_callbacks = None, Api_config.fail_callbacks = None,
        Api_config.error_callback = None, Api_config.verify = None,
        Api_config.data = None, Api_config.name = None, Api_config.description = None\<rparr> h =
     (next_ref h,
      h\<lparr>next_ref := next_ref h + 5,
        AxiosHeaders_objs := (AxiosHeaders_objs h)(next_ref h + 1 := []),
        Map_objs := (Map_objs h)(next_ref h + 2 := []),
        Array_objs := (Array_objs h)(next_ref h + 3 := [], next_ref h + 4 := []),
        Api_objs := (Api_objs h)(next_ref h :=
          \<lparr>IUnit.name = [], IUnit.description = [], IUnit.path = pa,
           IUnit.headers = next_ref h + 1, IUnit.querys = next_ref h + 2,
           IUnit.success_callbacks = next_ref h + 3, IUnit.fail_callbacks = next_ref h + 4,
           IUnit.error_callback = (\<lambda>_ w. (Inr JUndefined, w)),
           Api.data = JObj [], Api.method' = m,
           Api.verify = (\<lambda>r w. (Inr (status r = 200), w))\<rparr>)\<rparr>)"
  by (simp add: TestEngine_new_def WebSite_new_def Module_new_def Api_new_def or_new_def
      or_default_def or_string_def or_data_def split_def Let_def AxiosHeaders_new_def Map_new_def
      Array_new_def new_object_def noop_def status_is_200_def eval_nat_numeral)

text \<open>
  The claim as it was stated asks that \<open>path\<close> be an option of all four constructors.
  For the Engine it is not: no configuration gives the Engine the path \<open>https://x\<close>.
\<close>

theorem engine_path_counterexample:
  "IUnit.path (fst (TestEngine_new
       \<lparr>TestEngine_config.headers = None, TestEngine_config.querys = None,
        TestEngine_config.success_callbacks = None, TestEngine_config.fail_callbacks = None,
        TestEngine_config.error_callback = None, TestEngine_config.webSites = None,
        TestEngine_config.name = None, TestEngine_config.description = None\<rparr>
       (empty_heap :: unit heap))) = []
   \<and> \<not> (\<exists>c (h :: unit heap). IUnit.path (fst (TestEngine_new c h)) = ''https://x'')"
  by (simp add: TestEngine_new_def split_def Let_def)

section \<open>Claims about \<open>clone\<close>\<close>

text \<open>
  C3 (clone). For every Endpoint of the heap whose body is truthy (the constructor
  makes it so, and no member of the class assigns it afterwards): \<open>clone\<close> returns an
  object that did not exist before; all its fields equal the fields of the source, so
  it refers to the same header object, the same query map and the same callback arrays;
  the source and every container are as before; and after the merge step of a dispatch,
  and after the whole of \<open>start\<close>, the Endpoint and every object that existed before
  are still as they were, since the merge assigns fields of the clone to new objects.
\<close>

theorem clone_is_shallow_copy:
  assumes "allocated h api" and "truthy (Api.data (Api_objs h api))"
  shows "\<not> allocated h (fst (clone api h))
       \<and> allocated (snd (clone api h)) (fst (clone api h))
       \<and> Api_objs (snd (clone api h)) (fst (clone api h)) = Api_objs h api
       \<and> Api_objs (snd (clone api h)) api = Api_objs h api
       \<and> extends h (snd (clone api h))
       \<and> AxiosHeaders_objs (snd (clone api h)) = AxiosHeaders_objs h
       \<and> Map_objs (snd (clone api h)) = Map_objs h
       \<and> Array_objs (snd (clone api h)) = Array_objs h
       \<and> Api_objs (snd (start_api this webSite module api h)) api = Api_objs h api
       \<and> extends h (snd (start_api this webSite module api h))
       \<and> Api_objs (snd (start this h)) api = Api_objs h api
       \<and> extends h (snd (start this h))"
proof -
  have same: "clone api h =
      (next_ref h, h\<lparr>next_ref := Suc (next_ref h),
                     Api_objs := (Api_objs h)(next_ref h := Api_objs h api)\<rparr>)"
    using assms(2) by (rule clone_same)
  have new: "\<not> allocated h (fst (clone api h))" "allocated (snd (clone api h)) (fst (clone api h))"
    by (simp_all add: same allocated_def)
  have copy: "Api_objs (snd (clone api h)) (fst (clone api h)) = Api_objs h api"
    by (simp add: same)
  have source: "Api_objs (snd (clone api h)) api = Api_objs h api"
    using assms(1) by (simp add: same allocated_def)
  have containers: "AxiosHeaders_objs (snd (clone api h)) = AxiosHeaders_objs h"
    "Map_objs (snd (clone api h)) = Map_objs h" "Array_objs (snd (clone api h)) = Array_objs h"
    by (simp_all add: same)
  have merge: "Api_objs (snd (start_api this webSite module api h)) api = Api_objs h api"
    using assms(1) extends_start_api[of h this webSite module api] by (simp add: extends_def)
  have whole: "Api_objs (snd (start this h)) api = Api_objs h api"
    using assms(1) extends_start[of h this] by (simp add: extends_def)
  show ?thesis
    by (simp add: new copy source containers merge whole extends_clone extends_start_api
        extends_start)
qed

theorem clone_is_shallow_copy_witness:
  "(let h = (empty_heap :: unit heap)
             \<lparr>next_ref := 5,
              AxiosHeaders_objs := (\<lambda>_. [])(0 := [(''H'', ''b'')]),
              Map_objs := (\<lambda>_. [])(1 := [(''k'', ''a'')]),
              Api_objs := (Api_objs empty_heap)(4 :=
                 \<lparr>IUnit.name = ''login'', IUnit.description = [], IUnit.path = ''/e'',
                  IUnit.headers = 0, IUnit.querys = 1,
                  IUnit.success_callbacks = 2, IUnit.fail_callbacks = 3,
                  IUnit.error_callback = noop,
                  Api.data = JObj [(''user'', JStr ''u'')], Api.method' = POST,
                  Api.verify = status_is_200\<rparr>)\<rparr>;
        (c, h') = clone 4 h
    in allocated h 4 \<and> truthy (Api.data (Api_objs h 4)) \<and>
       c = 5 \<and> \<not> allocated h c \<and> allocated h' c \<and>
       Api_objs h' c = Api_objs h 4 \<and> Api_objs h' 4 = Api_objs h 4 \<and>
       IUnit.headers (Api_objs h' c) = 0 \<and> IUnit.querys (Api_objs h' c) = 1 \<and>
       AxiosHeaders_objs h' = AxiosHeaders_objs h \<and> Map_objs h' = Map_objs h \<and>
       Array_objs h' = Array_objs h)"
proof -
  let ?h = "(empty_heap :: unit heap)
             \<lparr>next_ref := 5,
              AxiosHeaders_objs := (\<lambda>_. [])(0 := [(''H'', ''b'')]),
              Map_objs := (\<lambda>_. [])(1 := [(''k'', ''a'')]),
              Api_objs := (Api_objs empty_heap)(4 :=
                 \<lparr>IUnit.name = ''login'', IUnit.description = [], IUnit.path = ''/e'',
                  IUnit.headers = 0, IUnit.querys = 1,
                  IUnit.success_callbacks = 2, IUnit.fail_callbacks = 3,
                  IUnit.error_callback = noop,
                  Api.data = JObj [(''user'', JStr ''u'')], Api.method' = POST,
                  Api.verify = status_is_200\<rparr>)\<rparr>"
  have a: "allocated ?h 4" by (simp add: allocated_def)
  have d: "truthy (Api.data (Api_objs ?h 4))" by simp
  have c: "fst (clone 4 ?h) = 5" by (simp add: clone_sel)
  have f: "IUnit.headers (Api_objs ?h 4) = 0" "IUnit.querys (Api_objs ?h 4) = 1" by simp_all
  show ?thesis
    using a d c f clone_is_shallow_copy[OF a d]
    by (simp add: split_def Let_def)
qed

section \<open>Callback arrays and handlers\<close>

text \<open>
  \<open>notify\<close> and \<open>fail\<close> are calls in sequence of the callbacks of an array, and so are
  the two handlers: the arrays of the four levels behave as one array, and the four error
  callbacks as a list of four.
\<close>

lemma and_then_Inr: "and_then (Inr x, w) f = f x w"
  by (simp add: and_then_def)

lemma and_then_Inl: "and_then (Inl e, w) f = (Inl e, w)"
  by (simp add: and_then_def)

lemma call_each_in_order:
  "and_then (call_each callbacks response result w) (\<lambda>_. k) =
   and_then (call_in_order callbacks response w) (\<lambda>_. k)"
proof (induction callbacks arbitrary: result w)
  case Nil
  show ?case by (simp add: and_then_def)
next
  case (Cons callback callbacks)
  obtain r w' where c: "callback response w = (r, w')"
    by (cases "callback response w")
  show ?case
  proof (cases r)
    case (Inl e)
    then show ?thesis by (simp add: c and_then_def)
  next
    case (Inr x)
    then show ?thesis using Cons.IH[of "result @ [x]" w'] by (simp add: c)
  qed
qed

lemma call_in_order_append:
  "call_in_order (fs @ gs) x w = and_then (call_in_order fs x w) (\<lambda>_. call_in_order gs x)"
proof (induction fs arbitrary: w)
  case Nil
  show ?case by (simp add: and_then_def)
next
  case (Cons f fs)
  obtain r w' where c: "f x w = (r, w')"
    by (cases "f x w")
  show ?case
    using Cons.IH[of w'] by (cases r) (simp_all add: c and_then_def)
qed

lemma call_in_order_end:
  "and_then (call_in_order fs x w) (\<lambda>_ w'. (Inr (), w')) = call_in_order fs x w"
  by (simp add: and_then_def split: prod.splits sum.splits)

lemma all_return_fold:
  "all_return fs x w \<Longrightarrow>
   call_in_order fs x w = (Inr (), fold (\<lambda>f w'. snd (f x w')) fs w)"
proof (induction fs arbitrary: w)
  case Nil
  show ?case by simp
next
  case (Cons f fs)
  obtain r w' where c: "f x w = (r, w')"
    by (cases "f x w")
  show ?case
    using Cons.prems Cons.IH[of w'] by (cases r) (simp_all add: c)
qed

lemma on_rejected_in_order:
  "on_rejected this webSite module api error h w =
     call_in_order (error_chain this webSite module api h) error w"
  by (simp add: on_rejected_def error_chain_def and_then_def split: prod.splits sum.splits)

lemma on_fulfilled_in_order:
  "on_fulfilled this webSite module api response h w =
     and_then (Api.verify (Api_objs h api) response w)
       (\<lambda>ok. call_in_order
          (if ok then success_chain this webSite module api h
           else fail_chain this webSite module api h)
          response)"
proof -
  have four: "and_then (call_each as response [] w0)
                (\<lambda>_ w1. and_then (call_each bs response [] w1)
                   (\<lambda>_ w2. and_then (call_each cs response [] w2)
                      (\<lambda>_ w3. and_then (call_each ds response [] w3)
                         (\<lambda>_ w4. (Inr (), w4))))) =
              call_in_order (as @ bs @ cs @ ds) response w0" for as bs cs ds w0
  proof -
    have d: "(\<lambda>w3. and_then (call_each ds response [] w3) (\<lambda>_ w4. (Inr (), w4))) =
             call_in_order ds response"
      by (simp add: call_each_in_order call_in_order_end fun_eq_iff)
    have c: "(\<lambda>w2. and_then (call_each cs response [] w2) (\<lambda>_. call_in_order ds response)) =
             call_in_order (cs @ ds) response"
      by (simp add: call_each_in_order call_in_order_append fun_eq_iff)
    have b: "(\<lambda>w1. and_then (call_each bs response [] w1) (\<lambda>_. call_in_order (cs @ ds) response)) =
             call_in_order (bs @ cs @ ds) response"
      by (simp add: call_each_in_order call_in_order_append fun_eq_iff)
    show ?thesis
      unfolding d c b by (simp add: call_each_in_order call_in_order_append)
  qed
  show ?thesis
    unfolding on_fulfilled_def notify_def fail_def four success_chain_def fail_chain_def
    by (rule arg_cong[where f = "and_then _"]) (simp add: fun_eq_iff)
qed

lemma settle_rejected:
  "settle p (Inl e) h w =
     call_in_order (error_chain (p_engine p) (p_webSite p) (p_module p) (p_api p) h) e w"
  by (simp add: settle_def on_rejected_in_order)

lemma settle_fulfilled:
  "settle p (Inr r) h w =
     (case Api.verify (Api_objs h (p_api p)) r w of
        (Inl thrown, w0) \<Rightarrow>
          call_in_order (error_chain (p_engine p) (p_webSite p) (p_module p) (p_api p) h) thrown w0
      | (Inr ok, w0) \<Rightarrow>
          (case call_in_order
                  (if ok then success_chain (p_engine p) (p_webSite p) (p_module p) (p_api p) h
                   else fail_chain (p_engine p) (p_webSite p) (p_module p) (p_api p) h) r w0 of
             (Inl thrown, w1) \<Rightarrow>
               call_in_order (error_chain (p_engine p) (p_webSite p) (p_module p) (p_api p) h)
                 thrown w1
           | (Inr u, w1) \<Rightarrow> (Inr (), w1)))"
  by (simp add: settle_def on_fulfilled_in_order on_rejected_in_order and_then_def
      split: prod.splits sum.splits)

lemma settle_heap_cong:
  assumes "Array_objs s = Array_objs h" and "Api_objs s (p_api p) = Api_objs h (p_api p)"
  shows "settle p outcome s w = settle p outcome h w"
proof -
  have chains:
    "error_chain (p_engine p) (p_webSite p) (p_module p) (p_api p) s =
     error_chain (p_engine p) (p_webSite p) (p_module p) (p_api p) h"
    "success_chain (p_engine p) (p_webSite p) (p_module p) (p_api p) s =
     success_chain (p_engine p) (p_webSite p) (p_module p) (p_api p) h"
    "fail_chain (p_engine p) (p_webSite p) (p_module p) (p_api p) s =
     fail_chain (p_engine p) (p_webSite p) (p_module p) (p_api p) h"
    by (simp_all add: error_chain_def success_chain_def fail_chain_def assms)
  show ?thesis
  proof (cases outcome)
    case (Inl e)
    show ?thesis unfolding Inl settle_rejected chains ..
  next
    case (Inr r)
    show ?thesis unfolding Inr settle_fulfilled chains assms(2) ..
  qed
qed

lemma settle_all_two:
  "settle_all [p1, p2] [(0, o1), (Suc 0, o2)] h w =
     (case settle p1 o1 h w of
        (Inl unhandled, w') \<Rightarrow> (Inl unhandled, w')
      | (Inr _, w') \<Rightarrow> settle p2 o2 h w')"
  "settle_all [p1, p2] [(Suc 0, o2), (0, o1)] h w =
     (case settle p2 o2 h w of
        (Inl unhandled, w') \<Rightarrow> (Inl unhandled, w')
      | (Inr _, w') \<Rightarrow> settle p1 o1 h w')"
  by (auto split: prod.splits sum.splits)

lemma settle_dispatch_fulfilled:
  "settle (fst (start_api this webSite module api s)) (Inr r) h w =
     (case Api.verify (Api_objs h api) r w of
        (Inl thrown, w0) \<Rightarrow> call_in_order (error_chain this webSite module api h) thrown w0
      | (Inr ok, w0) \<Rightarrow>
          (case call_in_order
                  (if ok then success_chain this webSite module api h
                   else fail_chain this webSite module api h) r w0 of
             (Inl thrown, w1) \<Rightarrow> call_in_order (error_chain this webSite module api h) thrown w1
           | (Inr u, w1) \<Rightarrow> (Inr (), w1)))"
  unfolding settle_fulfilled start_api_levels ..

section \<open>Claims about the completion handlers\<close>

text \<open>
  C4 (error path), as the code has it. When the transport call of an Endpoint's dispatch
  rejects with an error \<open>e\<close>, the \<open>catch\<close> handler calls the error callback of the
  Endpoint, then the Module's, then the Site's, then the Engine's, each with \<open>e\<close>, and
  nothing else: neither \<open>verify\<close> nor any callback of a success or fail array takes
  part. The calls stop at the first error callback that throws; the levels above it are
  not called then, and the promise of the chain is rejected with what was thrown. When
  each of the four returns, the state of the application afterwards is the state before,
  changed by exactly these four calls, and the promise is fulfilled. In the witness
  every function of the tree writes to a log, and the log holds the four error callbacks
  and nothing else.
\<close>

theorem error_path:
  "settle (fst (start_api this webSite module api s)) (Inl e) h w =
     call_in_order (error_chain this webSite module api h) e w
   \<and> (all_return (error_chain this webSite module api h) e w \<longrightarrow>
        settle (fst (start_api this webSite module api s)) (Inl e) h w =
          (Inr (), fold (\<lambda>callback w'. snd (callback e w'))
                     (error_chain this webSite module api h) w))"
  by (simp add: settle_rejected start_api_levels all_return_fold)

theorem error_path_witness:
  "(let h = (empty_heap :: (string \<times> error option) list heap)
             \<lparr>next_ref := 10,
              Array_objs := (\<lambda>_. [\<lambda>_ w. (Inr JUndefined, w @ [(''notify or fail'', None)])]),
              Api_objs := (Api_objs empty_heap)(9 :=
                 \<lparr>IUnit.name = [], IUnit.description = [], IUnit.path = ''/e'',
                  IUnit.headers = 8, IUnit.querys = 8,
                  IUnit.success_callbacks = 0, IUnit.fail_callbacks = 1,
                  IUnit.error_callback = (\<lambda>e w. (Inr JUndefined, w @ [(''api'', Some e)])),
                  Api.data = JObj [], Api.method' = GET,
                  Api.verify = (\<lambda>_ w. (Inr True, w @ [(''verify'', None)]))\<rparr>)\<rparr>;
        module = \<lparr>IUnit.name = [], IUnit.description = [], IUnit.path = [],
                IUnit.headers = 8, IUnit.querys = 8,
                IUnit.success_callbacks = 2, IUnit.fail_callbacks = 3,
                IUnit.error_callback = (\<lambda>e w. (Inr JUndefined, w @ [(''module'', Some e)])),
                Module.apis = [9]\<rparr>;
        webSite = \<lparr>IUnit.name = [], IUnit.description = [], IUnit.path = ''/s'',
                IUnit.headers = 8, IUnit.querys = 8,
                IUnit.success_callbacks = 4, IUnit.fail_callbacks = 5,
                IUnit.error_callback = (\<lambda>e w. (Inr JUndefined, w @ [(''site'', Some e)])),
                WebSite.modules = [module]\<rparr>;
        this = \<lparr>IUnit.name = ''TestEngine'', IUnit.description = ''TestEngine'', IUnit.path = [],
                IUnit.headers = 8, IUnit.querys = 8,
                IUnit.success_callbacks = 6, IUnit.fail_callbacks = 7,
                IUnit.error_callback = (\<lambda>e w. (Inr JUndefined, w @ [(''engine'', Some e)])),
                TestEngine.webSites = [webSite]\<rparr>;
        (p, h') = start_api this webSite module 9 h
    in all_return (error_chain this webSite module 9 h') (AxiosError ''timeout'') [] \<and>
       settle p (Inl (AxiosError ''timeout'')) h' [] =
         (Inr (),
          [(''api'', Some (AxiosError ''timeout'')), (''module'', Some (AxiosError ''timeout'')),
           (''site'', Some (AxiosError ''timeout'')), (''engine'', Some (AxiosError ''timeout''))]))"
proof -
  let ?h = "(empty_heap :: (string \<times> error option) list heap)
             \<lparr>next_ref := 10,
              Array_objs := (\<lambda>_. [\<lambda>_ w. (Inr JUndefined, w @ [(''notify or fail'', None)])]),
              Api_objs := (Api_objs empty_heap)(9 :=
                 \<lparr>IUnit.name = [], IUnit.description = [], IUnit.path = ''/e'',
                  IUnit.headers = 8, IUnit.querys = 8,
                  IUnit.success_callbacks = 0, IUnit.fail_callbacks = 1,
                  IUnit.error_callback = (\<lambda>e w. (Inr JUndefined, w @ [(''api'', Some e)])),
                  Api.data = JObj [], Api.method' = GET,
                  Api.verify = (\<lambda>_ w. (Inr True, w @ [(''verify'', None)]))\<rparr>)\<rparr>"
  let ?module = "\<lparr>IUnit.name = [], IUnit.description = [], IUnit.path = [],
                IUnit.headers = 8, IUnit.querys = 8,
                IUnit.success_callbacks = 2, IUnit.fail_callbacks = 3,
                IUnit.error_callback = (\<lambda>e w. (Inr JUndefined, w @ [(''module'', Some e)])),
                Module.apis = [9]\<rparr> :: (string \<times> error option) list Module"
  let ?webSite = "\<lparr>IUnit.name = [], IUnit.description = [], IUnit.path = ''/s'',
                IUnit.headers = 8, IUnit.querys = 8,
                IUnit.success_callbacks = 4, IUnit.fail_callbacks = 5,
                IUnit.error_callback = (\<lambda>e w. (Inr JUndefined, w @ [(''site'', Some e)])),
                WebSite.modules = [?module]\<rparr> :: (string \<times> error option) list WebSite"
  let ?engine = "\<lparr>IUnit.name = ''TestEngine'', IUnit.description = ''TestEngine'', IUnit.path = [],
                IUnit.headers = 8, IUnit.querys = 8,
                IUnit.success_callbacks = 6, IUnit.fail_callbacks = 7,
                IUnit.error_callback = (\<lambda>e w. (Inr JUndefined, w @ [(''engine'', Some e)])),
                TestEngine.webSites = [?webSite]\<rparr> :: (string \<times> error option) list TestEngine"
  let ?p = "fst (start_api ?engine ?webSite ?module 9 ?h)"
  let ?h' = "snd (start_api ?engine ?webSite ?module 9 ?h)"
  have chain: "error_chain ?engine ?webSite ?module 9 ?h' =
      [IUnit.error_callback (Api_objs ?h 9), IUnit.error_callback ?module,
       IUnit.error_callback ?webSite, IUnit.error_callback ?engine]"
    by (simp add: error_chain_def start_api_frame)
  have ret: "all_return (error_chain ?engine ?webSite ?module 9 ?h') (AxiosError ''timeout'') []"
    unfolding chain by simp
  have run: "settle ?p (Inl (AxiosError ''timeout'')) ?h' [] =
      (Inr (), fold (\<lambda>callback w'. snd (callback (AxiosError ''timeout'') w'))
                 (error_chain ?engine ?webSite ?module 9 ?h') [])"
    using error_path[where this = ?engine and webSite = ?webSite and module = ?module and api = 9
        and s = ?h and h = ?h' and e = "AxiosError ''timeout''" and w = "[]"] ret
    by blast
  have log: "fold (\<lambda>callback w'. snd (callback (AxiosError ''timeout'') w'))
           (error_chain ?engine ?webSite ?module 9 ?h') [] =
      [(''api'', Some (AxiosError ''timeout'')), (''module'', Some (AxiosError ''timeout'')),
       (''site'', Some (AxiosError ''timeout'')), (''engine'', Some (AxiosError ''timeout''))]"
    unfolding chain by simp
  show ?thesis
    unfolding Let_def split_def run log using ret by simp
qed

text \<open>
  The claim as it was stated has the four error callbacks called whenever the transport
  call rejects. Here the error callback of the Module throws: the Endpoint's and the
  Module's have been called, the Site's and the Engine's are not, and the promise of the
  chain is rejected.
\<close>

theorem error_path_counterexample:
  "(let h = (empty_heap :: (string \<times> error option) list heap)
             \<lparr>next_ref := 10,
              Array_objs := (\<lambda>_. [\<lambda>_ w. (Inr JUndefined, w @ [(''notify or fail'', None)])]),
              Api_objs := (Api_objs empty_heap)(9 :=
                 \<lparr>IUnit.name = [], IUnit.description = [], IUnit.path = ''/e'',
                  IUnit.headers = 8, IUnit.querys = 8,
                  IUnit.success_callbacks = 0, IUnit.fail_callbacks = 1,
                  IUnit.error_callback = (\<lambda>e w. (Inr JUndefined, w @ [(''api'', Some e)])),
                  Api.data = JObj [], Api.method' = GET,
                  Api.verify = (\<lambda>_ w. (Inr True, w @ [(''verify'', None)]))\<rparr>)\<rparr>;
        module = \<lparr>IUnit.name = [], IUnit.description = [], IUnit.path = [],
                IUnit.headers = 8, IUnit.querys = 8,
                IUnit.success_callbacks = 2, IUnit.fail_callbacks = 3,
                IUnit.error_callback = (\<lambda>e w. (Inl (Thrown (JStr ''boom'')), w @ [(''module'', Some e)])),
                Module.apis = [9]\<rparr>;
        webSite = \<lparr>IUnit.name = [], IUnit.description = [], IUnit.path = ''/s'',
                IUnit.headers = 8, IUnit.querys = 8,
                IUnit.success_callbacks = 4, IUnit.fail_callbacks = 5,
                IUnit.error_callback = (\<lambda>e w. (Inr JUndefined, w @ [(''site'', Some e)])),
                WebSite.modules = [module]\<rparr>;
        this = \<lparr>IUnit.name = ''TestEngine'', IUnit.description = ''TestEngine'', IUnit.path = [],
                IUnit.headers = 8, IUnit.querys = 8,
                IUnit.success_callbacks = 6, IUnit.fail_callbacks = 7,
                IUnit.error_callback = (\<lambda>e w. (Inr JUndefined, w @ [(''engine'', Some e)])),
                TestEngine.webSites = [webSite]\<rparr>;
        (p, h') = start_api this webSite module 9 h
    in settle p (Inl (AxiosError ''timeout'')) h' [] =
         (Inl (Thrown (JStr ''boom'')),
          [(''api'', Some (AxiosError ''timeout'')), (''module'', Some (AxiosError ''timeout''))]) \<and>
       snd (settle p (Inl (AxiosError ''timeout'')) h' []) \<noteq>
         fold (\<lambda>callback w'. snd (callback (AxiosError ''timeout'') w'))
           (error_chain this webSite module 9 h') [])"
proof -
  let ?h = "(empty_heap :: (string \<times> error option) list heap)
             \<lparr>next_ref := 10,
              Array_objs := (\<lambda>_. [\<lambda>_ w. (Inr JUndefined, w @ [(''notify or fail'', None)])]),
              Api_objs := (Api_objs empty_heap)(9 :=
                 \<lparr>IUnit.name = [], IUnit.description = [], IUnit.path = ''/e'',
                  IUnit.headers = 8, IUnit.querys = 8,
                  IUnit.success_callbacks = 0, IUnit.fail_callbacks = 1,
                  IUnit.error_callback = (\<lambda>e w. (Inr JUndefined, w @ [(''api'', Some e)])),
                  Api.data = JObj [], Api.method' = GET,
                  Api.verify = (\<lambda>_ w. (Inr True, w @ [(''verify'', None)]))\<rparr>)\<rparr>"
  let ?module = "\<lparr>IUnit.name = [], IUnit.description = [], IUnit.path = [],
                IUnit.headers = 8, IUnit.querys = 8,
                IUnit.success_callbacks = 2, IUnit.fail_callbacks = 3,
                IUnit.error_callback = (\<lambda>e w. (Inl (Thrown (JStr ''boom'')), w @ [(''module'', Some e)])),
                Module.apis = [9]\<rparr> :: (string \<times> error option) list Module"
  let ?webSite = "\<lparr>IUnit.name = [], IUnit.description = [], IUnit.path = ''/s'',
                IUnit.headers = 8, IUnit.querys = 8,
                IUnit.success_callbacks = 4, IUnit.fail_callbacks = 5,
                IUnit.error_callback = (\<lambda>e w. (Inr JUndefined, w @ [(''site'', Some e)])),
                WebSite.modules = [?module]\<rparr> :: (string \<times> error option) list WebSite"
  let ?engine = "\<lparr>IUnit.name = ''TestEngine'', IUnit.description = ''TestEngine'', IUnit.path = [],
                IUnit.headers = 8, IUnit.querys = 8,
                IUnit.success_callbacks = 6, IUnit.fail_callbacks = 7,
                IUnit.error_callback = (\<lambda>e w. (Inr JUndefined, w @ [(''engine'', Some e)])),
                TestEngine.webSites = [?webSite]\<rparr> :: (string \<times> error option) list TestEngine"
  let ?p = "fst (start_api ?engine ?webSite ?module 9 ?h)"
  let ?h' = "snd (start_api ?engine ?webSite ?module 9 ?h)"
  have chain: "error_chain ?engine ?webSite ?module 9 ?h' =
      [IUnit.error_callback (Api_objs ?h 9), IUnit.error_callback ?module,
       IUnit.error_callback ?webSite, IUnit.error_callback ?engine]"
    by (simp add: error_chain_def start_api_frame)
  have run: "settle ?p (Inl (AxiosError ''timeout'')) ?h' [] =
      (Inl (Thrown (JStr ''boom'')),
       [(''api'', Some (AxiosError ''timeout'')), (''module'', Some (AxiosError ''timeout''))])"
    unfolding settle_rejected start_api_levels chain by simp
  have claimed: "fold (\<lambda>callback w'. snd (callback (AxiosError ''timeout'') w'))
           (error_chain ?engine ?webSite ?module 9 ?h') [] =
      [(''api'', Some (AxiosError ''timeout'')), (''module'', Some (AxiosError ''timeout'')),
       (''site'', Some (AxiosError ''timeout'')), (''engine'', Some (AxiosError ''timeout''))]"
    unfolding chain by simp
  show ?thesis
    unfolding Let_def split_def run claimed by simp
qed

text \<open>
  C5 (verify gate), as the code has it. When the transport call of an Endpoint's dispatch
  resolves with a response \<open>r\<close>, the \<open>then\<close> handler calls the Endpoint's \<open>verify\<close>
  with \<open>r\<close>. If it returns true, the success callbacks of the Endpoint, then of the
  Module, then of the Site, then of the Engine are called with \<open>r\<close>, each array in its
  own order, and no fail callback is; if it returns false the same holds of the fail
  arrays, and no success callback is called. This is so as long as \<open>verify\<close> and the
  callbacks return: when \<open>verify\<close> or a callback throws, the handler ends there, the
  callbacks after it are not called, and the \<open>catch\<close> handler calls the error callbacks
  of the four levels with what was thrown. An Endpoint constructed without a \<open>verify\<close>
  option tests that the status is 200.
\<close>

theorem verify_gate:
  "settle (fst (start_api this webSite module api s)) (Inr r) h w =
     (case Api.verify (Api_objs h api) r w of
        (Inl thrown, w0) \<Rightarrow> call_in_order (error_chain this webSite module api h) thrown w0
      | (Inr ok, w0) \<Rightarrow>
          (case call_in_order
                  (if ok then success_chain this webSite module api h
                   else fail_chain this webSite module api h) r w0 of
             (Inl thrown, w1) \<Rightarrow> call_in_order (error_chain this webSite module api h) thrown w1
           | (Inr u, w1) \<Rightarrow> (Inr (), w1)))
   \<and> (Api.verify (Api_objs h api) r w = (Inr True, w0) \<longrightarrow>
      all_return (success_chain this webSite module api h) r w0 \<longrightarrow>
        settle (fst (start_api this webSite module api s)) (Inr r) h w =
          (Inr (), fold (\<lambda>callback w'. snd (callback r w'))
                     (success_chain this webSite module api h) w0))
   \<and> (Api.verify (Api_objs h api) r w = (Inr False, w0) \<longrightarrow>
      all_return (fail_chain this webSite module api h) r w0 \<longrightarrow>
        settle (fst (start_api this webSite module api s)) (Inr r) h w =
          (Inr (), fold (\<lambda>callback w'. snd (callback r w'))
                     (fail_chain this webSite module api h) w0))
   \<and> Api.verify (Api_objs (snd (Api_new (c\<lparr>Api_config.verify := None\<rparr>) h'))
                          (fst (Api_new (c\<lparr>Api_config.verify := None\<rparr>) h'))) r w =
       (Inr (status r = 200), w)"
proof -
  have default: "Api.verify (Api_objs (snd (Api_new (c\<lparr>Api_config.verify := None\<rparr>) h'))
                          (fst (Api_new (c\<lparr>Api_config.verify := None\<rparr>) h'))) r w =
       (Inr (status r = 200), w)"
    by (simp add: Api_new_def or_default_def status_is_200_def split_def Let_def)
  have verified: "settle (fst (start_api this webSite module api s)) (Inr r) h w =
          (Inr (), fold (\<lambda>callback w'. snd (callback r w'))
                     (success_chain this webSite module api h) w0)"
    if "Api.verify (Api_objs h api) r w = (Inr True, w0)"
      and "all_return (success_chain this webSite module api h) r w0"
    unfolding settle_dispatch_fulfilled that(1) by (simp add: all_return_fold[OF that(2)])
  have refused: "settle (fst (start_api this webSite module api s)) (Inr r) h w =
          (Inr (), fold (\<lambda>callback w'. snd (callback r w'))
                     (fail_chain this webSite module api h) w0)"
    if "Api.verify (Api_objs h api) r w = (Inr False, w0)"
      and "all_return (fail_chain this webSite module api h) r w0"
    unfolding settle_dispatch_fulfilled that(1) by (simp add: all_return_fold[OF that(2)])
  show ?thesis
    using settle_dispatch_fulfilled[of this webSite module api s r h w] default verified refused
    by blast
qed

theorem verify_gate_witness:
  "(let h = (empty_heap :: string list heap)
             \<lparr>next_ref := 10,
              Array_objs := (\<lambda>_. [])
                (0 := [\<lambda>_ w. (Inr JUndefined, w @ [''api ok 1'']), \<lambda>_ w. (Inr JUndefined, w @ [''api ok 2''])],
                 1 := [\<lambda>_ w. (Inr JUndefined, w @ [''api failed''])],
                 2 := [\<lambda>_ w. (Inr JUndefined, w @ [''module ok''])],
                 3 := [\<lambda>_ w. (Inr JUndefined, w @ [''module failed''])],
                 4 := [\<lambda>_ w. (Inr JUndefined, w @ [''site ok''])],
                 5 := [\<lambda>_ w. (Inr JUndefined, w @ [''site failed''])],
                 6 := [\<lambda>_ w. (Inr JUndefined, w @ [''engine ok''])],
                 7 := [\<lambda>_ w. (Inr JUndefined, w @ [''engine failed''])]),
              Api_objs := (Api_objs empty_heap)(9 :=
                 \<lparr>IUnit.name = [], IUnit.description = [], IUnit.path = ''/e'',
                  IUnit.headers = 8, IUnit.querys = 8,
                  IUnit.success_callbacks = 0, IUnit.fail_callbacks = 1,
                  IUnit.error_callback = (\<lambda>_ w. (Inr JUndefined, w @ [''api error''])),
                  Api.data = JObj [], Api.method' = GET,
                  Api.verify = status_is_200\<rparr>)\<rparr>;
        module = \<lparr>IUnit.name = [], IUnit.description = [], IUnit.path = [],
                IUnit.headers = 8, IUnit.querys = 8,
                IUnit.success_callbacks = 2, IUnit.fail_callbacks = 3,
                IUnit.error_callback = (\<lambda>_ w. (Inr JUndefined, w @ [''module error''])),
                Module.apis = [9]\<rparr>;
        webSite = \<lparr>IUnit.name = [], IUnit.description = [], IUnit.path = ''/s'',
                IUnit.headers = 8, IUnit.querys = 8,
                IUnit.success_callbacks = 4, IUnit.fail_callbacks = 5,
                IUnit.error_callback = (\<lambda>_ w. (Inr JUndefined, w @ [''site error''])),
                WebSite.modules = [module]\<rparr>;
        this = \<lparr>IUnit.name = ''TestEngine'', IUnit.description = ''TestEngine'', IUnit.path = [],
                IUnit.headers = 8, IUnit.querys = 8,
                IUnit.success_callbacks = 6, IUnit.fail_callbacks = 7,
                IUnit.error_callback = (\<lambda>_ w. (Inr JUndefined, w @ [''engine error''])),
                TestEngine.webSites = [webSite]\<rparr>;
        ok = \<lparr>status = 200, AxiosResponse.data = JNull\<rparr>;
        not_found = \<lparr>status = 404, AxiosResponse.data = JNull\<rparr>;
        (p, h') = start_api this webSite module 9 h
    in Api.verify (Api_objs h' 9) ok [] = (Inr True, []) \<and>
       all_return (success_chain this webSite module 9 h') ok [] \<and>
       settle p (Inr ok) h' [] =
         (Inr (), [''api ok 1'', ''api ok 2'', ''module ok'', ''site ok'', ''engine ok'']) \<and>
       Api.verify (Api_objs h' 9) not_found [] = (Inr False, []) \<and>
       all_return (fail_chain this webSite module 9 h') not_found [] \<and>
       settle p (Inr not_found) h' [] =
         (Inr (), [''api failed'', ''module failed'', ''site failed'', ''engine failed'']))"
proof -
  let ?h = "(empty_heap :: string list heap)
             \<lparr>next_ref := 10,
              Array_objs := (\<lambda>_. [])
                (0 := [\<lambda>_ w. (Inr JUndefined, w @ [''api ok 1'']), \<lambda>_ w. (Inr JUndefined, w @ [''api ok 2''])],
                 1 := [\<lambda>_ w. (Inr JUndefined, w @ [''api failed''])],
                 2 := [\<lambda>_ w. (Inr JUndefined, w @ [''module ok''])],
                 3 := [\<lambda>_ w. (Inr JUndefined, w @ [''module failed''])],
                 4 := [\<lambda>_ w. (Inr JUndefined, w @ [''site ok''])],
                 5 := [\<lambda>_ w. (Inr JUndefined, w @ [''site failed''])],
                 6 := [\<lambda>_ w. (Inr JUndefined, w @ [''engine ok''])],
                 7 := [\<lambda>_ w. (Inr JUndefined, w @ [''engine failed''])]),
              Api_objs := (Api_objs empty_heap)(9 :=
                 \<lparr>IUnit.name = [], IUnit.description = [], IUnit.path = ''/e'',
                  IUnit.headers = 8, IUnit.querys = 8,
                  IUnit.success_callbacks = 0, IUnit.fail_callbacks = 1,
                  IUnit.error_callback = (\<lambda>_ w. (Inr JUndefined, w @ [''api error''])),
                  Api.data = JObj [], Api.method' = GET,
                  Api.verify = status_is_200\<rparr>)\<rparr>"
  let ?module = "\<lparr>IUnit.name = [], IUnit.description = [], IUnit.path = [],
                IUnit.headers = 8, IUnit.querys = 8,
                IUnit.success_callbacks = 2, IUnit.fail_callbacks = 3,
                IUnit.error_callback = (\<lambda>_ w. (Inr JUndefined, w @ [''module error''])),
                Module.apis = [9]\<rparr> :: string list Module"
  let ?webSite = "\<lparr>IUnit.name = [], IUnit.description = [], IUnit.path = ''/s'',
                IUnit.headers = 8, IUnit.querys = 8,
                IUnit.success_callbacks = 4, IUnit.fail_callbacks = 5,
                IUnit.error_callback = (\<lambda>_ w. (Inr JUndefined, w @ [''site error''])),
                WebSite.modules = [?module]\<rparr> :: string list WebSite"
  let ?engine = "\<lparr>IUnit.name = ''TestEngine'', IUnit.description = ''TestEngine'', IUnit.path = [],
                IUnit.headers = 8, IUnit.querys = 8,
                IUnit.success_callbacks = 6, IUnit.fail_callbacks = 7,
                IUnit.error_callback = (\<lambda>_ w. (Inr JUndefined, w @ [''engine error''])),
                TestEngine.webSites = [?webSite]\<rparr> :: string list TestEngine"
  let ?ok = "\<lparr>status = 200, AxiosResponse.data = JNull\<rparr>"
  let ?not_found = "\<lparr>status = 404, AxiosResponse.data = JNull\<rparr>"
  let ?p = "fst (start_api ?engine ?webSite ?module 9 ?h)"
  let ?h' = "snd (start_api ?engine ?webSite ?module 9 ?h)"
  have api: "Api_objs ?h' 9 = Api_objs ?h 9"
    by (simp add: start_api_frame)
  have arrays: "Array_objs ?h' = Array_objs ?h"
    by (rule start_api_Array)
  have v: "Api.verify (Api_objs ?h' 9) ?ok [] = (Inr True, [])"
    "Api.verify (Api_objs ?h' 9) ?not_found [] = (Inr False, [])"
    unfolding api by (simp_all add: status_is_200_def)
  have chains:
    "success_chain ?engine ?webSite ?module 9 ?h' =
       [\<lambda>_ w. (Inr JUndefined, w @ [''api ok 1'']), \<lambda>_ w. (Inr JUndefined, w @ [''api ok 2'']),
        \<lambda>_ w. (Inr JUndefined, w @ [''module ok'']), \<lambda>_ w. (Inr JUndefined, w @ [''site ok'']),
        \<lambda>_ w. (Inr JUndefined, w @ [''engine ok''])]"
    "fail_chain ?engine ?webSite ?module 9 ?h' =
       [\<lambda>_ w. (Inr JUndefined, w @ [''api failed'']), \<lambda>_ w. (Inr JUndefined, w @ [''module failed'']),
        \<lambda>_ w. (Inr JUndefined, w @ [''site failed'']), \<lambda>_ w. (Inr JUndefined, w @ [''engine failed''])]"
    unfolding success_chain_def fail_chain_def api arrays by simp_all
  have ret: "all_return (success_chain ?engine ?webSite ?module 9 ?h') ?ok []"
    "all_return (fail_chain ?engine ?webSite ?module 9 ?h') ?not_found []"
    unfolding chains by simp_all
  have run: "settle ?p (Inr ?ok) ?h' [] =
      (Inr (), fold (\<lambda>callback w'. snd (callback ?ok w'))
                 (success_chain ?engine ?webSite ?module 9 ?h') [])"
    "settle ?p (Inr ?not_found) ?h' [] =
      (Inr (), fold (\<lambda>callback w'. snd (callback ?not_found w'))
                 (fail_chain ?engine ?webSite ?module 9 ?h') [])"
    using verify_gate[where this = ?engine and webSite = ?webSite and module = ?module
        and api = 9 and s = ?h and h = ?h' and r = ?ok and w = "[]" and ?w0.0 = "[]"] v(1) ret(1)
      verify_gate[where this = ?engine and webSite = ?webSite and module = ?module
        and api = 9 and s = ?h and h = ?h' and r = ?not_found and w = "[]" and ?w0.0 = "[]"]
      v(2) ret(2)
    by blast+
  have log: "fold (\<lambda>callback w'. snd (callback ?ok w'))
                 (success_chain ?engine ?webSite ?module 9 ?h') [] =
               [''api ok 1'', ''api ok 2'', ''module ok'', ''site ok'', ''engine ok'']"
    "fold (\<lambda>callback w'. snd (callback ?not_found w'))
                 (fail_chain ?engine ?webSite ?module 9 ?h') [] =
               [''api failed'', ''module failed'', ''site failed'', ''engine failed'']"
    unfolding chains by simp_all
  show ?thesis
    unfolding Let_def split_def run log using v ret by simp
qed

text \<open>
  The claim as it was stated has the success callbacks of all four levels called, and
  nothing else, whenever \<open>verify\<close> is true. Here the response has status 200, \<open>verify\<close>
  is the default and the success callback of the Module throws: the success callbacks of
  the Site and the Engine are not called, and the four error callbacks are. The last
  equation is what calling the four success arrays would have left in the log.
\<close>

theorem verify_gate_counterexample:
  "(let h = (empty_heap :: string list heap)
             \<lparr>next_ref := 10,
              Array_objs := (\<lambda>_. [])
                (0 := [\<lambda>_ w. (Inr JUndefined, w @ [''api ok 1'']), \<lambda>_ w. (Inr JUndefined, w @ [''api ok 2''])],
                 1 := [\<lambda>_ w. (Inr JUndefined, w @ [''api failed''])],
                 2 := [\<lambda>_ w. (Inl (Thrown (JStr ''boom'')), w @ [''module ok''])],
                 3 := [\<lambda>_ w. (Inr JUndefined, w @ [''module failed''])],
                 4 := [\<lambda>_ w. (Inr JUndefined, w @ [''site ok''])],
                 5 := [\<lambda>_ w. (Inr JUndefined, w @ [''site failed''])],
                 6 := [\<lambda>_ w. (Inr JUndefined, w @ [''engine ok''])],
                 7 := [\<lambda>_ w. (Inr JUndefined, w @ [''engine failed''])]),
              Api_objs := (Api_objs empty_heap)(9 :=
                 \<lparr>IUnit.name = [], IUnit.description = [], IUnit.path = ''/e'',
                  IUnit.headers = 8, IUnit.querys = 8,
                  IUnit.success_callbacks = 0, IUnit.fail_callbacks = 1,
                  IUnit.error_callback = (\<lambda>_ w. (Inr JUndefined, w @ [''api error''])),
                  Api.data = JObj [], Api.method' = GET,
                  Api.verify = status_is_200\<rparr>)\<rparr>;
        module = \<lparr>IUnit.name = [], IUnit.description = [], IUnit.path = [],
                IUnit.headers = 8, IUnit.querys = 8,
                IUnit.success_callbacks = 2, IUnit.fail_callbacks = 3,
                IUnit.error_callback = (\<lambda>_ w. (Inr JUndefined, w @ [''module error''])),
                Module.apis = [9]\<rparr>;
        webSite = \<lparr>IUnit.name = [], IUnit.description = [], IUnit.path = ''/s'',
                IUnit.headers = 8, IUnit.querys = 8,
                IUnit.success_callbacks = 4, IUnit.fail_callbacks = 5,
                IUnit.error_callback = (\<lambda>_ w. (Inr JUndefined, w @ [''site error''])),
                WebSite.modules = [module]\<rparr>;
        this = \<lparr>IUnit.name = ''TestEngine'', IUnit.description = ''TestEngine'', IUnit.path = [],
                IUnit.headers = 8, IUnit.querys = 8,
                IUnit.success_callbacks = 6, IUnit.fail_callbacks = 7,
                IUnit.error_callback = (\<lambda>_ w. (Inr JUndefined, w @ [''engine error''])),
                TestEngine.webSites = [webSite]\<rparr>;
        ok = \<lparr>status = 200, AxiosResponse.data = JNull\<rparr>;
        (p, h') = start_api this webSite module 9 h
    in Api.verify (Api_objs h' 9) ok [] = (Inr True, []) \<and>
       settle p (Inr ok) h' [] =
         (Inr (), [''api ok 1'', ''api ok 2'', ''module ok'',
                   ''api error'', ''module error'', ''site error'', ''engine error'']) \<and>
       fold (\<lambda>callback w'. snd (callback ok w')) (success_chain this webSite module 9 h') [] =
         [''api ok 1'', ''api ok 2'', ''module ok'', ''site ok'', ''engine ok''])"
proof -
  let ?h = "(empty_heap :: string list heap)
             \<lparr>next_ref := 10,
              Array_objs := (\<lambda>_. [])
                (0 := [\<lambda>_ w. (Inr JUndefined, w @ [''api ok 1'']), \<lambda>_ w. (Inr JUndefined, w @ [''api ok 2''])],
                 1 := [\<lambda>_ w. (Inr JUndefined, w @ [''api failed''])],
                 2 := [\<lambda>_ w. (Inl (Thrown (JStr ''boom'')), w @ [''module ok''])],
                 3 := [\<lambda>_ w. (Inr JUndefined, w @ [''module failed''])],
                 4 := [\<lambda>_ w. (Inr JUndefined, w @ [''site ok''])],
                 5 := [\<lambda>_ w. (Inr JUndefined, w @ [''site failed''])],
                 6 := [\<lambda>_ w. (Inr JUndefined, w @ [''engine ok''])],
                 7 := [\<lambda>_ w. (Inr JUndefined, w @ [''engine failed''])]),
              Api_objs := (Api_objs empty_heap)(9 :=
                 \<lparr>IUnit.name = [], IUnit.description = [], IUnit.path = ''/e'',
                  IUnit.headers = 8, IUnit.querys = 8,
                  IUnit.success_callbacks = 0, IUnit.fail_callbacks = 1,
                  IUnit.error_callback = (\<lambda>_ w. (Inr JUndefined, w @ [''api error''])),
                  Api.data = JObj [], Api.method' = GET,
                  Api.verify = status_is_200\<rparr>)\<rparr>"
  let ?module = "\<lparr>IUnit.name = [], IUnit.description = [], IUnit.path = [],
                IUnit.headers = 8, IUnit.querys = 8,
                IUnit.success_callbacks = 2, IUnit.fail_callbacks = 3,
                IUnit.error_callback = (\<lambda>_ w. (Inr JUndefined, w @ [''module error''])),
                Module.apis = [9]\<rparr> :: string list Module"
  let ?webSite = "\<lparr>IUnit.name = [], IUnit.description = [], IUnit.path = ''/s'',
                IUnit.headers = 8, IUnit.querys = 8,
                IUnit.success_callbacks = 4, IUnit.fail_callbacks = 5,
                IUnit.error_callback = (\<lambda>_ w. (Inr JUndefined, w @ [''site error''])),
                WebSite.modules = [?module]\<rparr> :: string list WebSite"
  let ?engine = "\<lparr>IUnit.name = ''TestEngine'', IUnit.description = ''TestEngine'', IUnit.path = [],
                IUnit.headers = 8, IUnit.querys = 8,
                IUnit.success_callbacks = 6, IUnit.fail_callbacks = 7,
                IUnit.error_callback = (\<lambda>_ w. (Inr JUndefined, w @ [''engine error''])),
                TestEngine.webSites = [?webSite]\<rparr> :: string list TestEngine"
  let ?ok = "\<lparr>status = 200, AxiosResponse.data = JNull\<rparr>"
  let ?p = "fst (start_api ?engine ?webSite ?module 9 ?h)"
  let ?h' = "snd (start_api ?engine ?webSite ?module 9 ?h)"
  have api: "Api_objs ?h' 9 = Api_objs ?h 9"
    by (simp add: start_api_frame)
  have arrays: "Array_objs ?h' = Array_objs ?h"
    by (rule start_api_Array)
  have v: "Api.verify (Api_objs ?h' 9) ?ok [] = (Inr True, [])"
    unfolding api by (simp add: status_is_200_def)
  have chains:
    "success_chain ?engine ?webSite ?module 9 ?h' =
       [\<lambda>_ w. (Inr JUndefined, w @ [''api ok 1'']), \<lambda>_ w. (Inr JUndefined, w @ [''api ok 2'']),
        \<lambda>_ w. (Inl (Thrown (JStr ''boom'')), w @ [''module ok'']),
        \<lambda>_ w. (Inr JUndefined, w @ [''site ok'']), \<lambda>_ w. (Inr JUndefined, w @ [''engine ok''])]"
    "error_chain ?engine ?webSite ?module 9 ?h' =
       [(\<lambda>_ w. (Inr JUndefined, w @ [''api error''])), (\<lambda>_ w. (Inr JUndefined, w @ [''module error''])),
        (\<lambda>_ w. (Inr JUndefined, w @ [''site error''])), (\<lambda>_ w. (Inr JUndefined, w @ [''engine error'']))]"
    unfolding success_chain_def error_chain_def api arrays by simp_all
  have run: "settle ?p (Inr ?ok) ?h' [] =
         (Inr (), [''api ok 1'', ''api ok 2'', ''module ok'',
                   ''api error'', ''module error'', ''site error'', ''engine error''])"
    unfolding settle_dispatch_fulfilled v chains by simp
  have claimed: "fold (\<lambda>callback w'. snd (callback ?ok w'))
                 (success_chain ?engine ?webSite ?module 9 ?h') [] =
               [''api ok 1'', ''api ok 2'', ''module ok'', ''site ok'', ''engine ok'']"
    unfolding chains by simp
  show ?thesis
    unfolding Let_def split_def run claimed using v by simp
qed

section \<open>Claims about independent dispatches\<close>

text \<open>
  C8 (independence), as the code has it. For an Engine with two Sites, each with one
  Module and one Endpoint of the heap: \<open>start\<close> issues exactly two transport calls. The
  first is what the dispatch of the first Endpoint yields on its own; the second differs
  from the dispatch of the second Endpoint on its own only in the names of its two new
  objects, and these hold the same header set and the same query map. The second
  dispatch leaves the objects of the first request as they were, and the settlement of a
  promise is the same function of its outcome as it was before \<open>start\<close> created
  anything. Whatever the two outcomes are (a response that verifies, one that does not,
  a transport error) and whichever promise settles first, the run applies the settlement
  of each promise with its own outcome, provided no exception leaves the \<open>catch\<close>
  handler of the promise that settles first: then the fan-out of one Endpoint does not
  depend on the outcome of the other. An error callback that throws leaves the promise
  of its chain rejected with nothing to handle it, which ends the process, and the
  settlement of the other promise is never delivered. In the witness each Endpoint
  records its outcome in a flag of its own.
\<close>

theorem dispatch_independence:
  assumes tree: "TestEngine.webSites this = [site1, site2]"
      "WebSite.modules site1 = [module1]" "Module.apis module1 = [api1]"
      "WebSite.modules site2 = [module2]" "Module.apis module2 = [api2]"
    and alloc: "allocated h api1" "allocated h api2"
    and maps: "allocated h (IUnit.querys this)" "allocated h (IUnit.querys site2)"
      "allocated h (IUnit.querys module2)" "allocated h (IUnit.querys (Api_objs h api2))"
  shows "length (fst (start this h)) = 2
     \<and> fst (start this h) ! 0 = fst (start_api this site1 module1 api1 h)
     \<and> fst (start this h) ! Suc 0 = (fst (start_api this site2 module2 api2 h))
           \<lparr>p_request := (p_request (fst (start_api this site2 module2 api2 h)))
              \<lparr>AxiosRequestConfig.headers := next_ref h + 8,
               AxiosRequestConfig.params := next_ref h + 9\<rparr>\<rparr>
     \<and> AxiosHeaders_objs (snd (start this h))
           (AxiosRequestConfig.headers (p_request (fst (start this h) ! 0))) =
         AxiosHeaders_objs (snd (start_api this site1 module1 api1 h))
           (AxiosRequestConfig.headers (p_request (fst (start_api this site1 module1 api1 h))))
     \<and> Map_objs (snd (start this h))
           (AxiosRequestConfig.params (p_request (fst (start this h) ! 0))) =
         Map_objs (snd (start_api this site1 module1 api1 h))
           (AxiosRequestConfig.params (p_request (fst (start_api this site1 module1 api1 h))))
     \<and> AxiosHeaders_objs (snd (start this h))
           (AxiosRequestConfig.headers (p_request (fst (start this h) ! Suc 0))) =
         AxiosHeaders_objs (snd (start_api this site2 module2 api2 h))
           (AxiosRequestConfig.headers (p_request (fst (start_api this site2 module2 api2 h))))
     \<and> Map_objs (snd (start this h))
           (AxiosRequestConfig.params (p_request (fst (start this h) ! Suc 0))) =
         Map_objs (snd (start_api this site2 module2 api2 h))
           (AxiosRequestConfig.params (p_request (fst (start_api this site2 module2 api2 h))))
     \<and> settle (fst (start this h) ! 0) o1 (snd (start this h)) =
         settle (fst (start this h) ! 0) o1 h
     \<and> settle (fst (start this h) ! Suc 0) o2 (snd (start this h)) =
         settle (fst (start this h) ! Suc 0) o2 h
     \<and> settle_all (fst (start this h)) [(0, o1), (Suc 0, o2)] (snd (start this h)) w =
         (case settle (fst (start this h) ! 0) o1 h w of
            (Inl unhandled, w') \<Rightarrow> (Inl unhandled, w')
          | (Inr _, w') \<Rightarrow> settle (fst (start this h) ! Suc 0) o2 h w')
     \<and> settle_all (fst (start this h)) [(Suc 0, o2), (0, o1)] (snd (start this h)) w =
         (case settle (fst (start this h) ! Suc 0) o2 h w of
            (Inl unhandled, w') \<Rightarrow> (Inl unhandled, w')
          | (Inr _, w') \<Rightarrow> settle (fst (start this h) ! 0) o1 h w')
     \<and> (fst (settle (fst (start this h) ! 0) o1 h w) = Inr () \<longrightarrow>
         settle_all (fst (start this h)) [(0, o1), (Suc 0, o2)] (snd (start this h)) w =
           settle (fst (start this h) ! Suc 0) o2 h (snd (settle (fst (start this h) ! 0) o1 h w)))
     \<and> (fst (settle (fst (start this h) ! Suc 0) o2 h w) = Inr () \<longrightarrow>
         settle_all (fst (start this h)) [(Suc 0, o2), (0, o1)] (snd (start this h)) w =
           settle (fst (start this h) ! 0) o1 h (snd (settle (fst (start this h) ! Suc 0) o2 h w)))"
proof -
  let ?h1 = "snd (start_api this site1 module1 api1 h)"
  let ?p1 = "fst (start_api this site1 module1 api1 h)"
  let ?h2 = "snd (start_api this site2 module2 api2 ?h1)"
  let ?p2 = "fst (start_api this site2 module2 api2 ?h1)"
  have st: "start this h = ([?p1, ?p2], ?h2)"
    using tree by (rule start_two_sites)
  have e1: "extends h ?h1" by (rule extends_start_api)
  have e12: "extends ?h1 ?h2" by (rule extends_start_api)
  have e2: "extends h ?h2" using e1 e12 by (rule extends_trans)
  have api2: "Api_objs ?h1 api2 = Api_objs h api2"
    using e1 alloc(2) by (simp add: extends_def)
  have n1: "next_ref ?h1 = next_ref h + 7" by (rule start_api_next)
  have p2: "?p2 = (fst (start_api this site2 module2 api2 h))
           \<lparr>p_request := (p_request (fst (start_api this site2 module2 api2 h)))
              \<lparr>AxiosRequestConfig.headers := next_ref h + 8,
               AxiosRequestConfig.params := next_ref h + 9\<rparr>\<rparr>"
    by (simp add: start_api_pending api2 n1)
  have hdr: "AxiosHeaders_objs ?h2 (AxiosRequestConfig.headers (p_request ?p1)) =
         AxiosHeaders_objs ?h1 (AxiosRequestConfig.headers (p_request ?p1))"
    using e12 by (simp add: extends_def allocated_def start_api_pending n1)
  have par: "Map_objs ?h2 (AxiosRequestConfig.params (p_request ?p1)) =
         Map_objs ?h1 (AxiosRequestConfig.params (p_request ?p1))"
    using e12 by (simp add: extends_def allocated_def start_api_pending n1)
  have hdr2: "AxiosHeaders_objs ?h2 (AxiosRequestConfig.headers (p_request ?p2)) =
         AxiosHeaders_objs (snd (start_api this site2 module2 api2 h))
           (AxiosRequestConfig.headers (p_request (fst (start_api this site2 module2 api2 h))))"
    by (simp add: start_api_pending start_api_header_obj)
  have old: "Map_objs ?h1 r = Map_objs h r" if "allocated h r" for r
    using e1 that by (simp add: extends_def)
  have par2: "Map_objs ?h2 (AxiosRequestConfig.params (p_request ?p2)) =
         Map_objs (snd (start_api this site2 module2 api2 h))
           (AxiosRequestConfig.params (p_request (fst (start_api this site2 module2 api2 h))))"
    using alloc(2) maps
      start_api_params_obj[of api2 ?h1 this site2 module2]
      start_api_params_obj[of api2 h this site2 module2]
    by (simp add: start_api_pending api2 n1 old allocated_def)
  have s1: "settle ?p1 o1 ?h2 = settle ?p1 o1 h" for o1
    using e2 alloc(1) by (intro ext settle_heap_cong) (simp_all add: extends_def start_api_pending)
  have s2: "settle ?p2 o2 ?h2 = settle ?p2 o2 h" for o2
    using e2 alloc(2) by (intro ext settle_heap_cong) (simp_all add: extends_def start_api_pending)
  have a12: "settle_all [?p1, ?p2] [(0, o1), (Suc 0, o2)] ?h2 w =
         (case settle ?p1 o1 h w of
            (Inl unhandled, w') \<Rightarrow> (Inl unhandled, w')
          | (Inr _, w') \<Rightarrow> settle ?p2 o2 h w')"
    unfolding settle_all_two s1 s2 ..
  have a21: "settle_all [?p1, ?p2] [(Suc 0, o2), (0, o1)] ?h2 w =
         (case settle ?p2 o2 h w of
            (Inl unhandled, w') \<Rightarrow> (Inl unhandled, w')
          | (Inr _, w') \<Rightarrow> settle ?p1 o1 h w')"
    unfolding settle_all_two s1 s2 ..
  have b12: "settle_all [?p1, ?p2] [(0, o1), (Suc 0, o2)] ?h2 w =
         settle ?p2 o2 h (snd (settle ?p1 o1 h w))"
    if "fst (settle ?p1 o1 h w) = Inr ()"
    unfolding a12 using that by (cases "settle ?p1 o1 h w") simp
  have b21: "settle_all [?p1, ?p2] [(Suc 0, o2), (0, o1)] ?h2 w =
         settle ?p1 o1 h (snd (settle ?p2 o2 h w))"
    if "fst (settle ?p2 o2 h w) = Inr ()"
    unfolding a21 using that by (cases "settle ?p2 o2 h w") simp
  have starts: "length [?p1, ?p2] = 2" "[?p1, ?p2] ! 0 = ?p1" "[?p1, ?p2] ! Suc 0 = ?p2"
    by simp_all
  show ?thesis
    unfolding st fst_conv snd_conv starts
    using p2 hdr par hdr2 par2 s1 s2 a12 a21 b12 b21 by blast
qed

theorem dispatch_independence_witness:
  "(let h = (empty_heap :: (string \<times> string) heap)
             \<lparr>next_ref := 12,
              Array_objs := (\<lambda>_. [])
                (0 := [\<lambda>_ w. (Inr JUndefined, (''ok'', snd w))],
                 2 := [\<lambda>_ w. (Inr JUndefined, (''failed'', snd w))],
                 3 := [\<lambda>_ w. (Inr JUndefined, (fst w, ''ok''))],
                 4 := [\<lambda>_ w. (Inr JUndefined, (fst w, ''failed''))]),
              Api_objs := (Api_objs empty_heap)
                (10 := \<lparr>IUnit.name = [], IUnit.description = [], IUnit.path = ''/e1'',
                        IUnit.headers = 5, IUnit.querys = 6,
                        IUnit.success_callbacks = 0, IUnit.fail_callbacks = 2,
                        IUnit.error_callback = (\<lambda>_ w. (Inr JUndefined, (''error'', snd w))),
                        Api.data = JObj [], Api.method' = GET, Api.verify = status_is_200\<rparr>,
                 11 := \<lparr>IUnit.name = [], IUnit.description = [], IUnit.path = ''/e2'',
                        IUnit.headers = 5, IUnit.querys = 6,
                        IUnit.success_callbacks = 3, IUnit.fail_callbacks = 4,
                        IUnit.error_callback = (\<lambda>_ w. (Inr JUndefined, (fst w, ''error''))),
                        Api.data = JObj [], Api.method' = GET, Api.verify = status_is_200\<rparr>)\<rparr>;
        module1 = \<lparr>IUnit.name = [], IUnit.description = [], IUnit.path = [],
                  IUnit.headers = 5, IUnit.querys = 6,
                  IUnit.success_callbacks = 8, IUnit.fail_callbacks = 8,
                  IUnit.error_callback = noop, Module.apis = [10]\<rparr>;
        module2 = \<lparr>IUnit.name = [], IUnit.description = [], IUnit.path = [],
                  IUnit.headers = 5, IUnit.querys = 6,
                  IUnit.success_callbacks = 8, IUnit.fail_callbacks = 8,
                  IUnit.error_callback = noop, Module.apis = [11]\<rparr>;
        site1 = \<lparr>IUnit.name = [], IUnit.description = [], IUnit.path = ''https://a'',
                  IUnit.headers = 5, IUnit.querys = 6,
                  IUnit.success_callbacks = 8, IUnit.fail_callbacks = 8,
                  IUnit.error_callback = noop, WebSite.modules = [module1]\<rparr>;
        site2 = \<lparr>IUnit.name = [], IUnit.description = [], IUnit.path = ''https://b'',
                  IUnit.headers = 5, IUnit.querys = 6,
                  IUnit.success_callbacks = 8, IUnit.fail_callbacks = 8,
                  IUnit.error_callback = noop, WebSite.modules = [module2]\<rparr>;
        this = \<lparr>IUnit.name = [], IUnit.description = [], IUnit.path = [],
                  IUnit.headers = 5, IUnit.querys = 6,
                  IUnit.success_callbacks = 8, IUnit.fail_callbacks = 8,
                  IUnit.error_callback = noop, TestEngine.webSites = [site1, site2]\<rparr>;
        ok = Inr \<lparr>status = 200, AxiosResponse.data = JNull\<rparr>;
        not_found = Inr \<lparr>status = 404, AxiosResponse.data = JNull\<rparr>;
        refused = Inl (AxiosError ''refused'');
        (ps, h') = start this h
    in TestEngine.webSites this = [site1, site2] \<and>
       WebSite.modules site1 = [module1] \<and> Module.apis module1 = [10] \<and>
       WebSite.modules site2 = [module2] \<and> Module.apis module2 = [11] \<and>
       allocated h 10 \<and> allocated h 11 \<and>
       allocated h (IUnit.querys this) \<and> allocated h (IUnit.querys site2) \<and>
       allocated h (IUnit.querys module2) \<and> allocated h (IUnit.querys (Api_objs h 11)) \<and>
       map (\<lambda>p. AxiosRequestConfig.url (p_request p)) ps = [''https://a/e1'', ''https://b/e2''] \<and>
       fst (settle (ps ! 0) ok h (''-'', ''-'')) = Inr () \<and>
       fst (settle (ps ! 0) refused h (''-'', ''-'')) = Inr () \<and>
       fst (settle (ps ! Suc 0) refused h (''-'', ''-'')) = Inr () \<and>
       fst (settle (ps ! Suc 0) not_found h (''-'', ''-'')) = Inr () \<and>
       settle_all ps [(0, ok), (Suc 0, ok)] h' (''-'', ''-'') = (Inr (), (''ok'', ''ok'')) \<and>
       settle_all ps [(0, ok), (Suc 0, not_found)] h' (''-'', ''-'') = (Inr (), (''ok'', ''failed'')) \<and>
       settle_all ps [(0, ok), (Suc 0, refused)] h' (''-'', ''-'') = (Inr (), (''ok'', ''error'')) \<and>
       settle_all ps [(0, refused), (Suc 0, ok)] h' (''-'', ''-'') = (Inr (), (''error'', ''ok'')) \<and>
       settle_all ps [(Suc 0, refused), (0, ok)] h' (''-'', ''-'') = (Inr (), (''ok'', ''error'')) \<and>
       settle_all ps [(Suc 0, not_found), (0, refused)] h' (''-'', ''-'') =
         (Inr (), (''error'', ''failed'')))"
proof -
  let ?h = "(empty_heap :: (string \<times> string) heap)
             \<lparr>next_ref := 12,
              Array_objs := (\<lambda>_. [])
                (0 := [\<lambda>_ w. (Inr JUndefined, (''ok'', snd w))],
                 2 := [\<lambda>_ w. (Inr JUndefined, (''failed'', snd w))],
                 3 := [\<lambda>_ w. (Inr JUndefined, (fst w, ''ok''))],
                 4 := [\<lambda>_ w. (Inr JUndefined, (fst w, ''failed''))]),
              Api_objs := (Api_objs empty_heap)
                (10 := \<lparr>IUnit.name = [], IUnit.description = [], IUnit.path = ''/e1'',
                        IUnit.headers = 5, IUnit.querys = 6,
                        IUnit.success_callbacks = 0, IUnit.fail_callbacks = 2,
                        IUnit.error_callback = (\<lambda>_ w. (Inr JUndefined, (''error'', snd w))),
                        Api.data = JObj [], Api.method' = GET, Api.verify = status_is_200\<rparr>,
                 11 := \<lparr>IUnit.name = [], IUnit.description = [], IUnit.path = ''/e2'',
                        IUnit.headers = 5, IUnit.querys = 6,
                        IUnit.success_callbacks = 3, IUnit.fail_callbacks = 4,
                        IUnit.error_callback = (\<lambda>_ w. (Inr JUndefined, (fst w, ''error''))),
                        Api.data = JObj [], Api.method' = GET, Api.verify = status_is_200\<rparr>)\<rparr>"
  let ?m1 = "\<lparr>IUnit.name = [], IUnit.description = [], IUnit.path = [],
                  IUnit.headers = 5, IUnit.querys = 6,
                  IUnit.success_callbacks = 8, IUnit.fail_callbacks = 8,
                  IUnit.error_callback = noop, Module.apis = [10]\<rparr> :: (string \<times> string) Module"
  let ?m2 = "\<lparr>IUnit.name = [], IUnit.description = [], IUnit.path = [],
                  IUnit.headers = 5, IUnit.querys = 6,
                  IUnit.success_callbacks = 8, IUnit.fail_callbacks = 8,
                  IUnit.error_callback = noop, Module.apis = [11]\<rparr> :: (string \<times> string) Module"
  let ?s1 = "\<lparr>IUnit.name = [], IUnit.description = [], IUnit.path = ''https://a'',
                  IUnit.headers = 5, IUnit.querys = 6,
                  IUnit.success_callbacks = 8, IUnit.fail_callbacks = 8,
                  IUnit.error_callback = noop, WebSite.modules = [?m1]\<rparr>"
  let ?s2 = "\<lparr>IUnit.name = [], IUnit.description = [], IUnit.path = ''https://b'',
                  IUnit.headers = 5, IUnit.querys = 6,
                  IUnit.success_callbacks = 8, IUnit.fail_callbacks = 8,
                  IUnit.error_callback = noop, WebSite.modules = [?m2]\<rparr>"
  let ?e = "\<lparr>IUnit.name = [], IUnit.description = [], IUnit.path = [],
                  IUnit.headers = 5, IUnit.querys = 6,
                  IUnit.success_callbacks = 8, IUnit.fail_callbacks = 8,
                  IUnit.error_callback = noop, TestEngine.webSites = [?s1, ?s2]\<rparr>"
  let ?ok = "Inr \<lparr>status = 200, AxiosResponse.data = JNull\<rparr> :: error + AxiosResponse"
  let ?not_found = "Inr \<lparr>status = 404, AxiosResponse.data = JNull\<rparr> :: error + AxiosResponse"
  let ?refused = "Inl (AxiosError ''refused'') :: error + AxiosResponse"
  have tree: "TestEngine.webSites ?e = [?s1, ?s2]"
    "WebSite.modules ?s1 = [?m1]" "Module.apis ?m1 = [10]"
    "WebSite.modules ?s2 = [?m2]" "Module.apis ?m2 = [11]"
    by simp_all
  have alloc: "allocated ?h 10" "allocated ?h 11"
    by (simp_all add: allocated_def)
  have maps: "allocated ?h (IUnit.querys ?e)" "allocated ?h (IUnit.querys ?s2)"
    "allocated ?h (IUnit.querys ?m2)" "allocated ?h (IUnit.querys (Api_objs ?h 11))"
    by (simp_all add: allocated_def)
  let ?p1 = "fst (start_api ?e ?s1 ?m1 10 ?h)"
  let ?h1 = "snd (start_api ?e ?s1 ?m1 10 ?h)"
  let ?p2 = "fst (start_api ?e ?s2 ?m2 11 ?h1)"
  let ?h2 = "snd (start_api ?e ?s2 ?m2 11 ?h1)"
  have st: "start ?e ?h = ([?p1, ?p2], ?h2)"
    using tree by (rule start_two_sites)
  have nth: "fst (start ?e ?h) ! 0 = ?p1" "fst (start ?e ?h) ! Suc 0 = ?p2"
    by (simp_all add: st)
  have levels2: "p_engine ?p2 = ?e" "p_webSite ?p2 = ?s2" "p_module ?p2 = ?m2" "p_api ?p2 = 11"
    by (rule start_api_levels)+
  have chains1:
    "success_chain ?e ?s1 ?m1 10 ?h = [\<lambda>_ w. (Inr JUndefined, (''ok'', snd w))]"
    "fail_chain ?e ?s1 ?m1 10 ?h = [\<lambda>_ w. (Inr JUndefined, (''failed'', snd w))]"
    "error_chain ?e ?s1 ?m1 10 ?h = [(\<lambda>_ w. (Inr JUndefined, (''error'', snd w))), noop, noop, noop]"
    by (simp_all add: success_chain_def fail_chain_def error_chain_def empty_heap_def)
  have chains2:
    "success_chain ?e ?s2 ?m2 11 ?h = [\<lambda>_ w. (Inr JUndefined, (fst w, ''ok''))]"
    "fail_chain ?e ?s2 ?m2 11 ?h = [\<lambda>_ w. (Inr JUndefined, (fst w, ''failed''))]"
    "error_chain ?e ?s2 ?m2 11 ?h =
       [\<lambda>_ w. (Inr JUndefined, (fst w, ''error'')), noop, noop, noop]"
    by (simp_all add: success_chain_def fail_chain_def error_chain_def empty_heap_def)
  have verify: "Api.verify (Api_objs ?h 10) = status_is_200" "Api.verify (Api_objs ?h 11) = status_is_200"
    by simp_all
  have urls: "AxiosRequestConfig.url (p_request ?p1) = ''https://a/e1''"
    "AxiosRequestConfig.url (p_request ?p2) = ''https://b/e2''"
    by (simp_all add: start_api_pending start_api_frame empty_heap_def)
  have list: "map (\<lambda>p. AxiosRequestConfig.url (p_request p)) (fst (start ?e ?h)) =
               [''https://a/e1'', ''https://b/e2'']"
    by (simp add: st urls)
  have one: "settle ?p1 ?ok ?h w = (Inr (), (''ok'', snd w))"
    "settle ?p1 ?refused ?h w = (Inr (), (''error'', snd w))" for w
    unfolding settle_dispatch_fulfilled settle_rejected start_api_levels chains1 verify
    by (simp_all add: status_is_200_def noop_def)
  have two: "settle ?p2 ?ok ?h w = (Inr (), (fst w, ''ok''))"
    "settle ?p2 ?not_found ?h w = (Inr (), (fst w, ''failed''))"
    "settle ?p2 ?refused ?h w = (Inr (), (fst w, ''error''))" for w
    unfolding settle_fulfilled settle_rejected levels2 chains2 verify
    by (simp_all add: status_is_200_def noop_def)
  have first: "settle_all (fst (start ?e ?h)) [(0, o1), (Suc 0, o2)] (snd (start ?e ?h)) w =
                 settle ?p2 o2 ?h (snd (settle ?p1 o1 ?h w))"
    if "fst (settle ?p1 o1 ?h w) = Inr ()" for o1 o2 w
    using dispatch_independence[OF tree alloc maps, where ?o1.0 = o1 and ?o2.0 = o2 and w = w] that
    unfolding nth by blast
  have second: "settle_all (fst (start ?e ?h)) [(Suc 0, o2), (0, o1)] (snd (start ?e ?h)) w =
                 settle ?p1 o1 ?h (snd (settle ?p2 o2 ?h w))"
    if "fst (settle ?p2 o2 ?h w) = Inr ()" for o1 o2 w
    using dispatch_independence[OF tree alloc maps, where ?o1.0 = o1 and ?o2.0 = o2 and w = w] that
    unfolding nth by blast
  have runs:
    "settle_all (fst (start ?e ?h)) [(0, ?ok), (Suc 0, ?ok)] (snd (start ?e ?h)) (''-'', ''-'') =
       (Inr (), (''ok'', ''ok''))"
    "settle_all (fst (start ?e ?h)) [(0, ?ok), (Suc 0, ?not_found)] (snd (start ?e ?h)) (''-'', ''-'') =
       (Inr (), (''ok'', ''failed''))"
    "settle_all (fst (start ?e ?h)) [(0, ?ok), (Suc 0, ?refused)] (snd (start ?e ?h)) (''-'', ''-'') =
       (Inr (), (''ok'', ''error''))"
    "settle_all (fst (start ?e ?h)) [(0, ?refused), (Suc 0, ?ok)] (snd (start ?e ?h)) (''-'', ''-'') =
       (Inr (), (''error'', ''ok''))"
    "settle_all (fst (start ?e ?h)) [(Suc 0, ?refused), (0, ?ok)] (snd (start ?e ?h)) (''-'', ''-'') =
       (Inr (), (''ok'', ''error''))"
    "settle_all (fst (start ?e ?h)) [(Suc 0, ?not_found), (0, ?refused)] (snd (start ?e ?h)) (''-'', ''-'') =
       (Inr (), (''error'', ''failed''))"
    by (simp_all add: first second one two del: settle_all.simps)
  show ?thesis
    unfolding Let_def split_def nth runs one two
    using tree alloc maps list by simp
qed

text \<open>
  The claim as it was stated has the outcome recorded for one Endpoint unchanged by the
  transport error of the other, whatever the callbacks are. Here the error callback of
  the first Endpoint throws. When both transport calls resolve with status 200 the second
  Endpoint records \<open>ok\<close>; when the first rejects before the second resolves, the second
  Endpoint records nothing.
\<close>

theorem dispatch_independence_counterexample:
  "(let h = (empty_heap :: (string \<times> string) heap)
             \<lparr>next_ref := 12,
              Array_objs := (\<lambda>_. [])
                (0 := [\<lambda>_ w. (Inr JUndefined, (''ok'', snd w))],
                 2 := [\<lambda>_ w. (Inr JUndefined, (''failed'', snd w))],
                 3 := [\<lambda>_ w. (Inr JUndefined, (fst w, ''ok''))],
                 4 := [\<lambda>_ w. (Inr JUndefined, (fst w, ''failed''))]),
              Api_objs := (Api_objs empty_heap)
                (10 := \<lparr>IUnit.name = [], IUnit.description = [], IUnit.path = ''/e1'',
                        IUnit.headers = 5, IUnit.querys = 6,
                        IUnit.success_callbacks = 0, IUnit.fail_callbacks = 2,
                        IUnit.error_callback = (\<lambda>_ w. (Inl (Thrown (JStr ''boom'')), w)),
                        Api.data = JObj [], Api.method' = GET, Api.verify = status_is_200\<rparr>,
                 11 := \<lparr>IUnit.name = [], IUnit.description = [], IUnit.path = ''/e2'',
                        IUnit.headers = 5, IUnit.querys = 6,
                        IUnit.success_callbacks = 3, IUnit.fail_callbacks = 4,
                        IUnit.error_callback = (\<lambda>_ w. (Inr JUndefined, (fst w, ''error''))),
                        Api.data = JObj [], Api.method' = GET, Api.verify = status_is_200\<rparr>)\<rparr>;
        module1 = \<lparr>IUnit.name = [], IUnit.description = [], IUnit.path = [],
                  IUnit.headers = 5, IUnit.querys = 6,
                  IUnit.success_callbacks = 8, IUnit.fail_callbacks = 8,
                  IUnit.error_callback = noop, Module.apis = [10]\<rparr>;
        module2 = \<lparr>IUnit.name = [], IUnit.description = [], IUnit.path = [],
                  IUnit.headers = 5, IUnit.querys = 6,
                  IUnit.success_callbacks = 8, IUnit.fail_callbacks = 8,
                  IUnit.error_callback = noop, Module.apis = [11]\<rparr>;
        site1 = \<lparr>IUnit.name = [], IUnit.description = [], IUnit.path = ''https://a'',
                  IUnit.headers = 5, IUnit.querys = 6,
                  IUnit.success_callbacks = 8, IUnit.fail_callbacks = 8,
                  IUnit.error_callback = noop, WebSite.modules = [module1]\<rparr>;
        site2 = \<lparr>IUnit.name = [], IUnit.description = [], IUnit.path = ''https://b'',
                  IUnit.headers = 5, IUnit.querys = 6,
                  IUnit.success_callbacks = 8, IUnit.fail_callbacks = 8,
                  IUnit.error_callback = noop, WebSite.modules = [module2]\<rparr>;
        this = \<lparr>IUnit.name = [], IUnit.description = [], IUnit.path = [],
                  IUnit.headers = 5, IUnit.querys = 6,
                  IUnit.success_callbacks = 8, IUnit.fail_callbacks = 8,
                  IUnit.error_callback = noop, TestEngine.webSites = [site1, site2]\<rparr>;
        ok = Inr \<lparr>status = 200, AxiosResponse.data = JNull\<rparr>;
        not_found = Inr \<lparr>status = 404, AxiosResponse.data = JNull\<rparr>;
        refused = Inl (AxiosError ''refused'');
        (ps, h') = start this h
    in map (\<lambda>p. AxiosRequestConfig.url (p_request p)) ps = [''https://a/e1'', ''https://b/e2''] \<and>
       settle_all ps [(0, ok), (Suc 0, ok)] h' (''-'', ''-'') = (Inr (), (''ok'', ''ok'')) \<and>
       settle_all ps [(0, refused), (Suc 0, ok)] h' (''-'', ''-'') =
         (Inl (Thrown (JStr ''boom'')), (''-'', ''-'')))"
proof -
  let ?h = "(empty_heap :: (string \<times> string) heap)
             \<lparr>next_ref := 12,
              Array_objs := (\<lambda>_. [])
                (0 := [\<lambda>_ w. (Inr JUndefined, (''ok'', snd w))],
                 2 := [\<lambda>_ w. (Inr JUndefined, (''failed'', snd w))],
                 3 := [\<lambda>_ w. (Inr JUndefined, (fst w, ''ok''))],
                 4 := [\<lambda>_ w. (Inr JUndefined, (fst w, ''failed''))]),
              Api_objs := (Api_objs empty_heap)
                (10 := \<lparr>IUnit.name = [], IUnit.description = [], IUnit.path = ''/e1'',
                        IUnit.headers = 5, IUnit.querys = 6,
                        IUnit.success_callbacks = 0, IUnit.fail_callbacks = 2,
                        IUnit.error_callback = (\<lambda>_ w. (Inl (Thrown (JStr ''boom'')), w)),
                        Api.data = JObj [], Api.method' = GET, Api.verify = status_is_200\<rparr>,
                 11 := \<lparr>IUnit.name = [], IUnit.description = [], IUnit.path = ''/e2'',
                        IUnit.headers = 5, IUnit.querys = 6,
                        IUnit.success_callbacks = 3, IUnit.fail_callbacks = 4,
                        IUnit.error_callback = (\<lambda>_ w. (Inr JUndefined, (fst w, ''error''))),
                        Api.data = JObj [], Api.method' = GET, Api.verify = status_is_200\<rparr>)\<rparr>"
  let ?m1 = "\<lparr>IUnit.name = [], IUnit.description = [], IUnit.path = [],
                  IUnit.headers = 5, IUnit.querys = 6,
                  IUnit.success_callbacks = 8, IUnit.fail_callbacks = 8,
                  IUnit.error_callback = noop, Module.apis = [10]\<rparr> :: (string \<times> string) Module"
  let ?m2 = "\<lparr>IUnit.name = [], IUnit.description = [], IUnit.path = [],
                  IUnit.headers = 5, IUnit.querys = 6,
                  IUnit.success_callbacks = 8, IUnit.fail_callbacks = 8,
                  IUnit.error_callback = noop, Module.apis = [11]\<rparr> :: (string \<times> string) Module"
  let ?s1 = "\<lparr>IUnit.name = [], IUnit.description = [], IUnit.path = ''https://a'',
                  IUnit.headers = 5, IUnit.querys = 6,
                  IUnit.success_callbacks = 8, IUnit.fail_callbacks = 8,
                  IUnit.error_callback = noop, WebSite.modules = [?m1]\<rparr>"
  let ?s2 = "\<lparr>IUnit.name = [], IUnit.description = [], IUnit.path = ''https://b'',
                  IUnit.headers = 5, IUnit.querys = 6,
                  IUnit.success_callbacks = 8, IUnit.fail_callbacks = 8,
                  IUnit.error_callback = noop, WebSite.modules = [?m2]\<rparr>"
  let ?e = "\<lparr>IUnit.name = [], IUnit.description = [], IUnit.path = [],
                  IUnit.headers = 5, IUnit.querys = 6,
                  IUnit.success_callbacks = 8, IUnit.fail_callbacks = 8,
                  IUnit.error_callback = noop, TestEngine.webSites = [?s1, ?s2]\<rparr>"
  let ?ok = "Inr \<lparr>status = 200, AxiosResponse.data = JNull\<rparr> :: error + AxiosResponse"
  let ?not_found = "Inr \<lparr>status = 404, AxiosResponse.data = JNull\<rparr> :: error + AxiosResponse"
  let ?refused = "Inl (AxiosError ''refused'') :: error + AxiosResponse"
  have tree: "TestEngine.webSites ?e = [?s1, ?s2]"
    "WebSite.modules ?s1 = [?m1]" "Module.apis ?m1 = [10]"
    "WebSite.modules ?s2 = [?m2]" "Module.apis ?m2 = [11]"
    by simp_all
  have alloc: "allocated ?h 10" "allocated ?h 11"
    by (simp_all add: allocated_def)
  have maps: "allocated ?h (IUnit.querys ?e)" "allocated ?h (IUnit.querys ?s2)"
    "allocated ?h (IUnit.querys ?m2)" "allocated ?h (IUnit.querys (Api_objs ?h 11))"
    by (simp_all add: allocated_def)
  let ?p1 = "fst (start_api ?e ?s1 ?m1 10 ?h)"
  let ?h1 = "snd (start_api ?e ?s1 ?m1 10 ?h)"
  let ?p2 = "fst (start_api ?e ?s2 ?m2 11 ?h1)"
  let ?h2 = "snd (start_api ?e ?s2 ?m2 11 ?h1)"
  have st: "start ?e ?h = ([?p1, ?p2], ?h2)"
    using tree by (rule start_two_sites)
  have nth: "fst (start ?e ?h) ! 0 = ?p1" "fst (start ?e ?h) ! Suc 0 = ?p2"
    by (simp_all add: st)
  have levels2: "p_engine ?p2 = ?e" "p_webSite ?p2 = ?s2" "p_module ?p2 = ?m2" "p_api ?p2 = 11"
    by (rule start_api_levels)+
  have chains1:
    "success_chain ?e ?s1 ?m1 10 ?h = [\<lambda>_ w. (Inr JUndefined, (''ok'', snd w))]"
    "fail_chain ?e ?s1 ?m1 10 ?h = [\<lambda>_ w. (Inr JUndefined, (''failed'', snd w))]"
    "error_chain ?e ?s1 ?m1 10 ?h = [(\<lambda>_ w. (Inl (Thrown (JStr ''boom'')), w)), noop, noop, noop]"
    by (simp_all add: success_chain_def fail_chain_def error_chain_def empty_heap_def)
  have chains2:
    "success_chain ?e ?s2 ?m2 11 ?h = [\<lambda>_ w. (Inr JUndefined, (fst w, ''ok''))]"
    "fail_chain ?e ?s2 ?m2 11 ?h = [\<lambda>_ w. (Inr JUndefined, (fst w, ''failed''))]"
    "error_chain ?e ?s2 ?m2 11 ?h =
       [\<lambda>_ w. (Inr JUndefined, (fst w, ''error'')), noop, noop, noop]"
    by (simp_all add: success_chain_def fail_chain_def error_chain_def empty_heap_def)
  have verify: "Api.verify (Api_objs ?h 10) = status_is_200" "Api.verify (Api_objs ?h 11) = status_is_200"
    by simp_all
  have urls: "AxiosRequestConfig.url (p_request ?p1) = ''https://a/e1''"
    "AxiosRequestConfig.url (p_request ?p2) = ''https://b/e2''"
    by (simp_all add: start_api_pending start_api_frame empty_heap_def)
  have list: "map (\<lambda>p. AxiosRequestConfig.url (p_request p)) (fst (start ?e ?h)) =
               [''https://a/e1'', ''https://b/e2'']"
    by (simp add: st urls)
  have e12: "extends ?h ?h2"
    using extends_trans[OF extends_start_api extends_start_api] .
  have at_start: "settle ?p1 o1 ?h2 = settle ?p1 o1 ?h" "settle ?p2 o2 ?h2 = settle ?p2 o2 ?h"
    for o1 o2
    using e12 alloc
    by (auto intro!: ext settle_heap_cong simp: extends_def start_api_levels)
  have one: "settle ?p1 ?ok ?h w = (Inr (), (''ok'', snd w))"
    "settle ?p1 ?refused ?h w = (Inl (Thrown (JStr ''boom'')), w)" for w
    unfolding settle_dispatch_fulfilled settle_rejected start_api_levels chains1 verify
    by (simp_all add: status_is_200_def noop_def)
  have two: "settle ?p2 ?ok ?h w = (Inr (), (fst w, ''ok''))" for w
    unfolding settle_fulfilled settle_rejected levels2 chains2 verify
    by (simp_all add: status_is_200_def noop_def)
  have runs:
    "settle_all [?p1, ?p2] [(0, ?ok), (Suc 0, ?ok)] ?h2 (''-'', ''-'') = (Inr (), (''ok'', ''ok''))"
    "settle_all [?p1, ?p2] [(0, ?refused), (Suc 0, ?ok)] ?h2 (''-'', ''-'') =
       (Inl (Thrown (JStr ''boom'')), (''-'', ''-''))"
    unfolding settle_all_two at_start one two by simp_all
  show ?thesis
    unfolding Let_def split_def st fst_conv snd_conv runs
    using list[unfolded st fst_conv] by simp
qed

section \<open>Header names\<close>






















section \<open>Claims about the operations of a node\<close>




end
